theory Spec2Isabelle
  imports Main
begin

text \<open>
  Two modules of a browser game engine are verified here: the WebGL renderer of a
  nine-slice game object, which feeds the faces of the object to a batching pipeline,
  and the loader file type for videos, which picks a URL the device can play and queues
  a file for it. Both are JavaScript. A function is modelled as a function from its
  arguments and the state it can reach to the new state and the value it returns; an
  exception is the result \<open>Inl\<close>. What the modules call but do not contain (the
  pipeline, the base class of loader files, the load queue) is a parameter or is
  modelled from the specification, as said at each place.
\<close>

section \<open>JavaScript values\<close>

text \<open>
  The values the loader inspects at run time. Numbers are kept as integers (nothing
  here depends on a fractional option); \<open>JBuffer\<close> is an ArrayBuffer, the response
  type the video file asks for; \<open>JFunction\<close> is a built-in function, known by its
  name. An object is the list of its own properties, and a read takes the first entry
  under a name.
\<close>

datatype jsval =
    JUndefined
  | JNull
  | JBool bool
  | JNum int
  | JStr string
  | JBuffer "nat list"
  | JFunction string
  | JArr "jsval list"
  | JObj "(string \<times> jsval) list"

text \<open>The only exception the fragment can raise by itself: a method call or a property
  read on a value that does not have it.\<close>

datatype error = TypeError

text \<open>What a function hands back to its caller: the receiver (\<open>return this\<close>) or a
  value (\<open>RValue JUndefined\<close> when the body ends without a \<open>return\<close> expression).\<close>

datatype jsret = RThis | RValue jsval

text \<open>ToBoolean, as \<open>if (x)\<close> applies it.\<close>

fun truthy :: "jsval \<Rightarrow> bool" where
  "truthy JUndefined = False"
| "truthy JNull = False"
| "truthy (JBool b) = b"
| "truthy (JNum n) = (n \<noteq> 0)"
| "truthy (JStr s) = (s \<noteq> [])"
| "truthy (JBuffer bs) = True"
| "truthy (JFunction n) = True"
| "truthy (JArr xs) = True"
| "truthy (JObj kvs) = True"

text \<open>\<open>Array.isArray\<close>.\<close>

fun isArray :: "jsval \<Rightarrow> bool" where
  "isArray (JArr xs) = True"
| "isArray v = False"

text \<open>
  A property read \<open>v[k]\<close>. The fragment reads only \<open>type\<close> and \<open>url\<close> this way, names
  that no built-in prototype defines: on a string, a number, a boolean, an array or a
  buffer the read gives \<open>undefined\<close>; on \<open>undefined\<close> and \<open>null\<close> it throws.
\<close>

fun get_prop :: "jsval \<Rightarrow> string \<Rightarrow> error + jsval" where
  "get_prop JUndefined k = Inl TypeError"
| "get_prop JNull k = Inl TypeError"
| "get_prop (JObj kvs) k = Inr (case map_of kvs k of None \<Rightarrow> JUndefined | Some v \<Rightarrow> v)"
| "get_prop v k = Inr JUndefined"

subsection \<open>Strings\<close>

text \<open>\<open>String.prototype.indexOf\<close>: the index of the first occurrence of \<open>p\<close>, or \<open>-1\<close>.\<close>

fun indexOf_from :: "string \<Rightarrow> string \<Rightarrow> nat \<Rightarrow> int" where
  "indexOf_from [] p i = (if p = [] then int i else - 1)"
| "indexOf_from (c # cs) p i =
     (if take (length p) (c # cs) = p then int i else indexOf_from cs p (Suc i))"

definition indexOf :: "string \<Rightarrow> string \<Rightarrow> int" where
  "indexOf s p = indexOf_from s p 0"

text \<open>The character class \<open>[a-zA-Z0-9]\<close>.\<close>

definition alnum :: "char \<Rightarrow> bool" where
  "alnum c \<longleftrightarrow>
     c \<in> set ''abcdefghijklmnopqrstuvwxyzABCDEFGHIJKLMNOPQRSTUVWXYZ0123456789''"

text \<open>
  \<open>url.match(/\.([a-zA-Z0-9]+)($|\?)/)\<close>, reduced to its first capture group: \<open>None\<close> is
  the \<open>null\<close> of a failed match. The match is tried at every dot from the left. At a dot
  the greedy run of alphanumerics is the only candidate: a shorter run would be followed
  by an alphanumeric, which is neither the end of the input nor a question mark.
\<close>

fun match_ext :: "string \<Rightarrow> string option" where
  "match_ext [] = None"
| "match_ext (c # cs) =
     (if c = CHR ''.'' \<and> takeWhile alnum cs \<noteq> [] \<and>
         (dropWhile alnum cs = [] \<or> hd (dropWhile alnum cs) = CHR ''?'')
      then Some (takeWhile alnum cs)
      else match_ext cs)"

text \<open>\<open>String.prototype.toLowerCase\<close> on the ASCII letters.\<close>

definition lower_char :: "char \<Rightarrow> char" where
  "lower_char c =
     (case map_of (zip ''ABCDEFGHIJKLMNOPQRSTUVWXYZ'' ''abcdefghijklmnopqrstuvwxyz'') c of
        None \<Rightarrow> c | Some d \<Rightarrow> d)"

definition toLowerCase :: "string \<Rightarrow> string" where
  "toLowerCase s = map lower_char s"

section \<open>Helpers of the engine that the fragment imports\<close>

text \<open>
  Modelled from the spec: \<open>utils/object/GetFastValue\<close> is required by the loader file but
  is not part of the fragment. It reads one option of a configuration object with a
  default: the default comes back when the source is not an object, when it has no such
  property of its own, or when the property is \<open>undefined\<close>. The keys the fragment asks
  for (\<open>url\<close>, \<open>type\<close>, \<open>loadEvent\<close>, \<open>asBlob\<close>, \<open>xhrSettings\<close>) are never own
  properties of an array or a buffer.
\<close>

fun GetFastValue :: "jsval \<Rightarrow> string \<Rightarrow> jsval \<Rightarrow> jsval" where
  "GetFastValue (JObj kvs) k defaultValue =
     (case map_of kvs k of
        None \<Rightarrow> defaultValue
      | Some v \<Rightarrow> if v = JUndefined then defaultValue else v)"
| "GetFastValue source k defaultValue = defaultValue"

text \<open>
  Modelled from the spec: \<open>utils/object/IsPlainObject\<close> is required by the loader file but
  is not part of the fragment. It holds of the objects written as configuration
  literals and of nothing else (not of arrays, strings or \<open>null\<close>).
\<close>

fun IsPlainObject :: "jsval \<Rightarrow> bool" where
  "IsPlainObject (JObj kvs) = True"
| "IsPlainObject v = False"

section \<open>The video file of the loader\<close>

text \<open>
  Modelled from the spec: the lifecycle states of a loader file come from the \<open>const\<close>
  module, which is not part of the fragment; \<open>onProcess\<close> names \<open>FILE_PROCESSING\<close>.
\<close>

datatype file_state =
    FILE_PENDING | FILE_LOADING | FILE_LOADED | FILE_FAILED | FILE_PROCESSING
  | FILE_ERRORED | FILE_COMPLETE | FILE_DESTROYED | FILE_POPULATED

text \<open>
  \<open>game.device.video\<close>, the table of the video types of the device: an ordinary object,
  given by its own properties.
\<close>

record game =
  device_video :: "(string \<times> jsval) list"

text \<open>
  What an ordinary object inherits from \<open>Object.prototype\<close>: the built-in methods, and
  under \<open>__proto__\<close> the prototype itself.
\<close>

definition Object_prototype_methods :: "(string \<times> jsval) list" where
  "Object_prototype_methods =
     map (\<lambda>n. (n, JFunction n))
       [''constructor'', ''hasOwnProperty'', ''isPrototypeOf'', ''propertyIsEnumerable'',
        ''toLocaleString'', ''toString'', ''valueOf'', ''__defineGetter__'',
        ''__defineSetter__'', ''__lookupGetter__'', ''__lookupSetter__'']"

definition Object_prototype :: "(string \<times> jsval) list" where
  "Object_prototype =
     Object_prototype_methods @ [(''__proto__'', JObj Object_prototype_methods)]"

text \<open>
  The read \<open>game.device.video[videoType]\<close>. There is no own-property guard in the
  source: a name that is no own property of the table is looked up in what the table
  inherits, and only then is the result \<open>undefined\<close>.
\<close>

definition read_video :: "game \<Rightarrow> string \<Rightarrow> jsval" where
  "read_video g videoType =
     (case map_of (device_video g) videoType of
        Some v \<Rightarrow> v
      | None \<Rightarrow>
          (case map_of Object_prototype videoType of
             Some v \<Rightarrow> v
           | None \<Rightarrow> JUndefined))"

text \<open>The \<open>config\<close> object and the \<open>fileConfig\<close> object the constructor builds.\<close>

record file_options =
  cfg_loadEvent :: jsval
  cfg_asBlob :: jsval

record fileConfig =
  fc_type :: string
  fc_cache :: nat
  fc_extension :: jsval
  fc_responseType :: string
  fc_key :: jsval
  fc_url :: jsval
  fc_xhrSettings :: jsval
  fc_config :: file_options

text \<open>The transport object of a file; \<open>onProcess\<close> reads its \<open>response\<close>.\<close>

record xhr =
  response :: jsval

text \<open>
  Modelled from the spec: the \<open>File\<close> base class is not part of the fragment. A video file
  is what its constructor passes to \<open>File\<close>, together with the three fields of the base
  class that \<open>onProcess\<close> touches. A new file is pending, has no data and no transport.
\<close>

record video_file =
  config_of :: fileConfig
  state :: file_state
  data :: jsval
  xhrLoader :: "xhr option"

definition File_call :: "fileConfig \<Rightarrow> video_file" where
  "File_call fc = \<lparr>config_of = fc, state = FILE_PENDING, data = JUndefined, xhrLoader = None\<rparr>"

text \<open>
  The loader, as far as the fragment reaches into it: \<open>loader.systems.game\<close>,
  \<open>loader.cacheManager.video\<close> (an opaque reference) and the load queue.
\<close>

record loader =
  systems_game :: game
  cacheManager_video :: nat
  queue :: "video_file list"

text \<open>
  Modelled from the spec: \<open>LoaderPlugin.addFile\<close> is not part of the fragment; it adds
  the file record to the load queue. The queue holds the files in the order of the
  calls, one entry for each call.
\<close>

definition addFile :: "loader \<Rightarrow> video_file \<Rightarrow> loader" where
  "addFile this file = this\<lparr>queue := queue this @ [file]\<rparr>"

subsection \<open>The constructor\<close>

definition VideoFile ::
  "loader \<Rightarrow> jsval \<Rightarrow> jsval \<Rightarrow> jsval \<Rightarrow> jsval \<Rightarrow> jsval \<Rightarrow> error + video_file" where
  "VideoFile ldr key urlConfig loadEvent asBlob xhrSettings =
     (case get_prop urlConfig ''type'' of
        Inl e \<Rightarrow> Inl e
      | Inr ext \<Rightarrow>
          (case get_prop urlConfig ''url'' of
             Inl e \<Rightarrow> Inl e
           | Inr u \<Rightarrow>
               Inr (File_call
                 \<lparr>fc_type = ''video'',
                  fc_cache = cacheManager_video ldr,
                  fc_extension = ext,
                  fc_responseType = ''arraybuffer'',
                  fc_key = key,
                  fc_url = u,
                  fc_xhrSettings = xhrSettings,
                  fc_config = \<lparr>cfg_loadEvent = loadEvent, cfg_asBlob = asBlob\<rparr>\<rparr>)))"

subsection \<open>onProcess\<close>

text \<open>The methods a video file inherits from \<open>File\<close> and that \<open>onProcess\<close> could call.\<close>

record file_base =
  onProcessComplete :: "video_file \<Rightarrow> video_file"
  onProcessError :: "video_file \<Rightarrow> video_file"

definition onProcess :: "file_base \<Rightarrow> video_file \<Rightarrow> error + video_file" where
  "onProcess base this =
     (let this1 = this\<lparr>state := FILE_PROCESSING\<rparr> in
      case xhrLoader this1 of
        None \<Rightarrow> Inl TypeError
      | Some x \<Rightarrow> Inr (onProcessComplete base (this1\<lparr>data := response x\<rparr>)))"

subsection \<open>getVideoURL\<close>

text \<open>
  The \<open>for\<close> loop, from the current index on, over the entries that remain.
  A method call on a value without that method throws: \<open>indexOf\<close> exists on strings and
  on arrays (where it looks for an element), \<open>match\<close> and \<open>toLowerCase\<close> on strings only.
\<close>

fun getVideoURL_loop :: "game \<Rightarrow> jsval list \<Rightarrow> error + jsval" where
  "getVideoURL_loop g [] = Inr JNull"
| "getVideoURL_loop g (entry # others) =
     (case GetFastValue entry ''url'' entry of
        JStr url \<Rightarrow>
          if indexOf url ''blob:'' = 0 \<or> indexOf url ''data:'' = 0 then Inr (JStr url)
          else
            (case GetFastValue entry ''type''
                    (JStr (case match_ext url of None \<Rightarrow> [] | Some t \<Rightarrow> t)) of
               JStr t \<Rightarrow>
                 if truthy (read_video g (toLowerCase t))
                 then Inr (JObj [(''url'', JStr url), (''type'', JStr (toLowerCase t))])
                 else getVideoURL_loop g others
             | _ \<Rightarrow> Inl TypeError)
      | JArr xs \<Rightarrow>
          if xs \<noteq> [] \<and> (hd xs = JStr ''blob:'' \<or> hd xs = JStr ''data:'')
          then Inr (JArr xs)
          else Inl TypeError
      | _ \<Rightarrow> Inl TypeError)"

definition getVideoURL :: "game \<Rightarrow> jsval \<Rightarrow> error + jsval" where
  "getVideoURL g urls =
     getVideoURL_loop g (case urls of JArr xs \<Rightarrow> xs | _ \<Rightarrow> [urls])"

subsection \<open>create\<close>

text \<open>\<open>Inr None\<close> is the \<open>undefined\<close> of a call that falls off the end of the body.\<close>

definition create ::
  "loader \<Rightarrow> jsval \<Rightarrow> jsval \<Rightarrow> jsval \<Rightarrow> jsval \<Rightarrow> jsval \<Rightarrow> error + video_file option" where
  "create ldr key urls loadEvent asBlob xhrSettings =
     (let g = systems_game ldr in
      case (if IsPlainObject key
            then (GetFastValue key ''url'' (JArr []),
                  GetFastValue key ''loadEvent'' (JStr ''canplaythrough''),
                  GetFastValue key ''asBlob'' (JBool False),
                  GetFastValue key ''xhrSettings'' JUndefined)
            else (urls, loadEvent, asBlob, xhrSettings)) of
        (urls1, loadEvent1, asBlob1, xhrSettings1) \<Rightarrow>
          (case getVideoURL g urls1 of
             Inl e \<Rightarrow> Inl e
           | Inr urlConfig \<Rightarrow>
               if truthy urlConfig
               then (case VideoFile ldr key urlConfig loadEvent1 asBlob1 xhrSettings1 of
                       Inl e \<Rightarrow> Inl e
                     | Inr file \<Rightarrow> Inr (Some file))
               else Inr None))"

subsection \<open>The \<open>video\<close> command of the load queue\<close>

text \<open>The loop over an array of keys: every other argument of \<open>create\<close> is absent.\<close>

fun video_loop :: "loader \<Rightarrow> jsval list \<Rightarrow> error + loader" where
  "video_loop this [] = Inr this"
| "video_loop this (k # ks) =
     (case create this k JUndefined JUndefined JUndefined JUndefined of
        Inl e \<Rightarrow> Inl e
      | Inr None \<Rightarrow> video_loop this ks
      | Inr (Some videoFile) \<Rightarrow> video_loop (addFile this videoFile) ks)"

definition video ::
  "loader \<Rightarrow> jsval \<Rightarrow> jsval \<Rightarrow> jsval \<Rightarrow> jsval \<Rightarrow> jsval \<Rightarrow> error + (jsret \<times> loader)" where
  "video this key urls loadEvent asBlob xhrSettings =
     (case key of
        JArr keys \<Rightarrow>
          (case video_loop this keys of
             Inl e \<Rightarrow> Inl e
           | Inr this1 \<Rightarrow> Inr (RThis, this1))
      | _ \<Rightarrow>
          (case create this key urls loadEvent asBlob xhrSettings of
             Inl e \<Rightarrow> Inl e
           | Inr None \<Rightarrow> Inr (RThis, this)
           | Inr (Some videoFile) \<Rightarrow> Inr (RThis, addFile this videoFile)))"

section \<open>The nine-slice renderer\<close>

subsection \<open>The state the renderer works on\<close>

text \<open>
  Every call the renderer makes into the engine, in the order it is made. A flush is
  recorded with \<open>pipeline.vertexCount\<close> before and after it, a load with the index of
  the face and the vertex offset, texture unit and tint effect it was given.
\<close>

datatype call =
    Call_addToRenderList
  | Call_pipelines_set
  | Call_GetCalcMatrix
  | Call_setGameObject
  | Call_preBatch
  | Call_update nat
  | Call_shouldFlush int
  | Call_flush int int
  | Call_load nat int int bool
  | Call_postBatch

text \<open>An entry of the pipeline's batch; \<open>pipeline.currentBatch\<close> is one or \<open>null\<close>.\<close>

record batch =
  start :: int
  count :: int

text \<open>
  The mutable state a call can reach: the fields of the pipeline and of the game object
  that the renderer itself reads or writes, the record of the calls made so far, and the
  rest of the engine (vertex buffers, camera render list, GL state) as \<open>rest\<close>.
  The pipeline is the object that \<open>renderer.pipelines.set\<close> returns;
  \<open>vertexComponentCount\<close> is \<open>pipeline.currentShader.vertexComponentCount\<close>,
  \<open>totalFrame\<close> is \<open>src.totalFrame\<close>.
\<close>

record 'x world =
  vertexCount :: int
  vertexComponentCount :: int
  currentBatch :: "batch option"
  totalFrame :: int
  calls :: "call list"
  rest :: 'x

text \<open>The game object and the camera, as far as the renderer reads them.\<close>

record ('f, 'n) gameobject =
  faces :: "'f list"
  tintFill :: bool
  src_alpha :: 'n

record 'n camera =
  camera_roundPixels :: bool
  camera_alpha :: 'n

text \<open>
  The engine behind the renderer: the batching pipeline, the pipeline manager, the
  camera, the matrix helper and the face methods are not part of the fragment. Each is
  taken as a parameter that may change the whole state; \<open>times_number\<close> is the
  multiplication of two JavaScript numbers. \<open>face_update\<close> stands for
  \<open>faces[i].update(alpha, a, b, c, d, e, f, roundPixels)\<close>, with the six components
  passed as the matrix they are read from, and \<open>face_load\<close> for
  \<open>face.load(F32, U32, vertexOffset, textureUnit, tintEffect)\<close>, the two views being
  part of \<open>rest\<close>.
\<close>

record ('x, 'f, 'n, 'm, 'p) engine =
  addToRenderList :: "('f, 'n) gameobject \<Rightarrow> 'x world \<Rightarrow> 'x world"
  pipelines_set :: "('f, 'n) gameobject \<Rightarrow> 'x world \<Rightarrow> 'x world"
  GetCalcMatrix :: "('f, 'n) gameobject \<Rightarrow> 'n camera \<Rightarrow> 'p \<Rightarrow> 'x world \<Rightarrow> 'm \<times> 'x world"
  setGameObject :: "('f, 'n) gameobject \<Rightarrow> 'x world \<Rightarrow> int \<times> 'x world"
  preBatch :: "('f, 'n) gameobject \<Rightarrow> 'x world \<Rightarrow> 'x world"
  face_update :: "'f \<Rightarrow> 'n \<Rightarrow> 'm \<Rightarrow> bool \<Rightarrow> 'x world \<Rightarrow> 'f \<times> 'x world"
  shouldFlush :: "int \<Rightarrow> 'x world \<Rightarrow> bool \<times> 'x world"
  flush :: "'x world \<Rightarrow> 'x world"
  face_load :: "'f \<Rightarrow> int \<Rightarrow> int \<Rightarrow> bool \<Rightarrow> 'x world \<Rightarrow> int \<times> 'x world"
  postBatch :: "('f, 'n) gameobject \<Rightarrow> 'x world \<Rightarrow> 'x world"
  times_number :: "'n \<Rightarrow> 'n \<Rightarrow> 'n"

text \<open>A call into the engine, recorded. The record of the calls is kept by the model:
  whatever the engine returns in its place is dropped.\<close>

definition invoke :: "call \<Rightarrow> ('x world \<Rightarrow> 'a \<times> 'x world) \<Rightarrow> 'x world \<Rightarrow> 'a \<times> 'x world" where
  "invoke c f w = (case f w of (v, w') \<Rightarrow> (v, w'\<lparr>calls := calls w @ [c]\<rparr>))"

definition invoke_unit :: "call \<Rightarrow> ('x world \<Rightarrow> 'x world) \<Rightarrow> 'x world \<Rightarrow> 'x world" where
  "invoke_unit c f w = (f w)\<lparr>calls := calls w @ [c]\<rparr>"

definition invoke_flush :: "('x world \<Rightarrow> 'x world) \<Rightarrow> 'x world \<Rightarrow> 'x world" where
  "invoke_flush f w =
     (f w)\<lparr>calls := calls w @ [Call_flush (vertexCount w) (vertexCount (f w))]\<rparr>"

text \<open>The local variables of the renderer that live across the loop.\<close>

record ('n, 'm) locals =
  calcMatrix :: 'm
  tintEffect :: bool
  roundPixels :: bool
  alpha :: 'n
  textureUnit :: int
  vertexOffset :: int
  totalFacesRendered :: int

subsection \<open>The body of the loop\<close>

text \<open>
  One iteration, for the face at index \<open>i\<close>. The assignment to
  \<open>pipeline.currentBatch.count\<close> throws when \<open>currentBatch\<close> is \<open>null\<close>.
\<close>

definition batch_face ::
  "('x, 'f, 'n, 'm, 'p) engine \<Rightarrow> ('f, 'n) gameobject \<Rightarrow> nat \<Rightarrow> 'f \<Rightarrow>
   'x world \<times> ('n, 'm) locals \<Rightarrow> error + 'x world \<times> ('n, 'm) locals" where
  "batch_face E src i fc st =
     (case st of (w, loc) \<Rightarrow>
      case invoke (Call_update i)
             (face_update E fc (alpha loc) (calcMatrix loc) (roundPixels loc)) w of
        (face, w1) \<Rightarrow>
      case invoke (Call_shouldFlush 3) (shouldFlush E 3) w1 of
        (sf, w2) \<Rightarrow>
      case (if sf
            then (let w3 = invoke_flush (flush E) w2 in
                  case (if currentBatch w3 = None
                        then invoke Call_setGameObject (setGameObject E src) w3
                        else (textureUnit loc, w3)) of
                    (tu, w4) \<Rightarrow> (w4, loc\<lparr>textureUnit := tu, vertexOffset := 0\<rparr>))
            else (w2, loc)) of
        (w5, loc1) \<Rightarrow>
      case invoke (Call_load i (vertexOffset loc1) (textureUnit loc1) (tintEffect loc1))
             (face_load E face (vertexOffset loc1) (textureUnit loc1) (tintEffect loc1)) w5 of
        (vo, w6) \<Rightarrow>
      (let loc2 = loc1\<lparr>vertexOffset := vo,
                       totalFacesRendered := totalFacesRendered loc1 + 1\<rparr>;
           w7 = w6\<lparr>vertexCount := vertexCount w6 + 3\<rparr>
       in case currentBatch w7 of
            None \<Rightarrow> Inl TypeError
          | Some b \<Rightarrow>
              Inr (w7\<lparr>currentBatch := Some (b\<lparr>count := vertexCount w7 - start b\<rparr>)\<rparr>, loc2)))"

text \<open>The \<open>for\<close> loop, from index \<open>i\<close> on, over the faces that remain.\<close>

fun batch_faces ::
  "('x, 'f, 'n, 'm, 'p) engine \<Rightarrow> ('f, 'n) gameobject \<Rightarrow> nat \<Rightarrow> 'f list \<Rightarrow>
   'x world \<times> ('n, 'm) locals \<Rightarrow> error + 'x world \<times> ('n, 'm) locals" where
  "batch_faces E src i [] st = Inr st"
| "batch_faces E src i (fc # fcs) st =
     (case batch_face E src i fc st of
        Inl e \<Rightarrow> Inl e
      | Inr st1 \<Rightarrow> batch_faces E src (Suc i) fcs st1)"

subsection \<open>The renderer\<close>

definition NineSliceWebGLRenderer ::
  "('x, 'f, 'n, 'm, 'p) engine \<Rightarrow> ('f, 'n) gameobject \<Rightarrow> 'n camera \<Rightarrow> 'p \<Rightarrow>
   'x world \<Rightarrow> error + jsret \<times> 'x world" where
  "NineSliceWebGLRenderer E src cam parentMatrix w =
     (let totalFaces = length (faces src) in
      if totalFaces = 0 then Inr (RValue JUndefined, w)
      else
        (let w1 = invoke_unit Call_addToRenderList (addToRenderList E src) w;
             w2 = invoke_unit Call_pipelines_set (pipelines_set E src) w1
         in case invoke Call_GetCalcMatrix (GetCalcMatrix E src cam parentMatrix) w2 of
              (calc, w3) \<Rightarrow>
            case invoke Call_setGameObject (setGameObject E src) w3 of
              (unit, w4) \<Rightarrow>
            (let loc = \<lparr>calcMatrix = calc,
                        tintEffect = tintFill src,
                        roundPixels = camera_roundPixels cam,
                        alpha = times_number E (camera_alpha cam) (src_alpha src),
                        textureUnit = unit,
                        vertexOffset = vertexCount w4 * vertexComponentCount w4 - 1,
                        totalFacesRendered = 0\<rparr>;
                 w5 = invoke_unit Call_preBatch (preBatch E src) w4
             in case batch_faces E src 0 (faces src) (w5, loc) of
                  Inl e \<Rightarrow> Inl e
                | Inr (w6, loc1) \<Rightarrow>
                    (let w7 = w6\<lparr>totalFrame := totalFrame w6 + totalFacesRendered loc1\<rparr>;
                         w8 = invoke_unit Call_postBatch (postBatch E src) w7
                     in Inr (RValue JUndefined, w8)))))"

section \<open>Vocabulary of the properties\<close>

subsection \<open>Well-formed arguments of the loader\<close>

text \<open>
  An entry of the URL list is a string, or an object with a string \<open>url\<close> and, when it
  has one, a string \<open>type\<close>. The \<open>urls\<close> argument is one entry or an array of entries.
\<close>

fun entry_ok :: "jsval \<Rightarrow> bool" where
  "entry_ok (JStr s) = True"
| "entry_ok (JObj kvs) =
     (case map_of kvs ''url'' of
        Some (JStr s) \<Rightarrow>
          (case map_of kvs ''type'' of
             None \<Rightarrow> True
           | Some JUndefined \<Rightarrow> True
           | Some (JStr t) \<Rightarrow> True
           | Some v \<Rightarrow> False)
      | _ \<Rightarrow> False)"
| "entry_ok v = False"

fun entries :: "jsval \<Rightarrow> jsval list" where
  "entries (JArr xs) = xs"
| "entries v = [v]"

definition urls_ok :: "jsval \<Rightarrow> bool" where
  "urls_ok urls = list_all entry_ok (entries urls)"

text \<open>The URL of a well-formed entry.\<close>

fun entry_url :: "jsval \<Rightarrow> string" where
  "entry_url (JStr s) = s"
| "entry_url (JObj kvs) = (case map_of kvs ''url'' of Some (JStr s) \<Rightarrow> s | _ \<Rightarrow> [])"
| "entry_url v = []"

definition starts_with :: "string \<Rightarrow> string \<Rightarrow> bool" where
  "starts_with p s \<longleftrightarrow> take (length p) s = p"

definition inline_url :: "string \<Rightarrow> bool" where
  "inline_url s \<longleftrightarrow> starts_with ''blob:'' s \<or> starts_with ''data:'' s"

text \<open>The extension of a URL: what follows the first dot that is followed by
  alphanumerics up to the end of the URL or a question mark; empty when there is none.\<close>

definition extension :: "string \<Rightarrow> string" where
  "extension s = (case match_ext s of None \<Rightarrow> [] | Some t \<Rightarrow> t)"

text \<open>The explicit \<open>type\<close> of a well-formed entry, when it has one.\<close>

fun explicit_type :: "jsval \<Rightarrow> string option" where
  "explicit_type (JObj kvs) =
     (case map_of kvs ''type'' of Some (JStr t) \<Rightarrow> Some t | _ \<Rightarrow> None)"
| "explicit_type v = None"

text \<open>The video type of a well-formed entry: its explicit \<open>type\<close> when it has one, its
  extension otherwise, in lower case.\<close>

definition entry_type :: "jsval \<Rightarrow> string" where
  "entry_type e =
     toLowerCase (case explicit_type e of
                    Some t \<Rightarrow> t
                  | None \<Rightarrow> extension (entry_url e))"

text \<open>An entry is supported when the read of its type on the device table gives a
  truthy value.\<close>

definition supported :: "game \<Rightarrow> jsval \<Rightarrow> bool" where
  "supported g e \<longleftrightarrow> truthy (read_video g (entry_type e))"

text \<open>
  An entry matches nothing when it is not inline and its type is neither a key of the
  device table nor the name of a property that the table inherits.
\<close>

definition no_match :: "game \<Rightarrow> jsval \<Rightarrow> bool" where
  "no_match g e \<longleftrightarrow>
     \<not> inline_url (entry_url e) \<and>
     entry_type e \<notin> fst ` set (device_video g) \<and>
     entry_type e \<notin> fst ` set Object_prototype"

text \<open>
  The same condition with the words taken as they stand: neither the extension of the
  entry nor its explicit \<open>type\<close>, as written, is a key of the device table.
\<close>

definition no_match_stated :: "game \<Rightarrow> jsval \<Rightarrow> bool" where
  "no_match_stated g e \<longleftrightarrow>
     \<not> inline_url (entry_url e) \<and>
     extension (entry_url e) \<notin> fst ` set (device_video g) \<and>
     (case explicit_type e of
        Some t \<Rightarrow> t \<notin> fst ` set (device_video g)
      | None \<Rightarrow> True)"

text \<open>The URL list a call of \<open>create\<close> works on: the \<open>url\<close> option of a configuration
  object, the positional argument otherwise.\<close>

definition urls_of :: "jsval \<Rightarrow> jsval \<Rightarrow> jsval" where
  "urls_of key urls = (if IsPlainObject key then GetFastValue key ''url'' (JArr []) else urls)"

text \<open>A call of the \<open>video\<close> command is well-formed when the key is an array of
  configuration objects with well-formed URL lists, or a single key with one.\<close>

definition video_args_ok :: "jsval \<Rightarrow> jsval \<Rightarrow> bool" where
  "video_args_ok key urls =
     (case key of
        JArr keys \<Rightarrow> list_all (\<lambda>k. IsPlainObject k \<and> urls_ok (urls_of k JUndefined)) keys
      | _ \<Rightarrow> urls_ok (urls_of key urls))"

text \<open>The file that \<open>create\<close> returns for a key of an array, if it returns one.\<close>

definition created :: "loader \<Rightarrow> jsval \<Rightarrow> video_file option" where
  "created ldr k =
     (case create ldr k JUndefined JUndefined JUndefined JUndefined of
        Inr (Some file) \<Rightarrow> Some file
      | _ \<Rightarrow> None)"

definition rekey :: "jsval \<Rightarrow> video_file \<Rightarrow> video_file" where
  "rekey k file = file\<lparr>config_of := (config_of file)\<lparr>fc_key := k\<rparr>\<rparr>"

subsection \<open>What the renderer expects of the engine\<close>

text \<open>Only a flush changes \<open>pipeline.vertexCount\<close> behind the renderer's back.\<close>

definition keeps_vertexCount :: "('x, 'f, 'n, 'm, 'p) engine \<Rightarrow> bool" where
  "keeps_vertexCount E \<longleftrightarrow>
     (\<forall>src w. vertexCount (addToRenderList E src w) = vertexCount w) \<and>
     (\<forall>src w. vertexCount (pipelines_set E src w) = vertexCount w) \<and>
     (\<forall>src cam pm w. vertexCount (snd (GetCalcMatrix E src cam pm w)) = vertexCount w) \<and>
     (\<forall>src w. vertexCount (snd (setGameObject E src w)) = vertexCount w) \<and>
     (\<forall>src w. vertexCount (preBatch E src w) = vertexCount w) \<and>
     (\<forall>fc a m r w. vertexCount (snd (face_update E fc a m r w)) = vertexCount w) \<and>
     (\<forall>n w. vertexCount (snd (shouldFlush E n w)) = vertexCount w) \<and>
     (\<forall>fc off u t w. vertexCount (snd (face_load E fc off u t w)) = vertexCount w) \<and>
     (\<forall>src w. vertexCount (postBatch E src w) = vertexCount w)"

text \<open>Nothing in the engine writes \<open>src.totalFrame\<close>.\<close>

definition keeps_totalFrame :: "('x, 'f, 'n, 'm, 'p) engine \<Rightarrow> bool" where
  "keeps_totalFrame E \<longleftrightarrow>
     (\<forall>src w. totalFrame (addToRenderList E src w) = totalFrame w) \<and>
     (\<forall>src w. totalFrame (pipelines_set E src w) = totalFrame w) \<and>
     (\<forall>src cam pm w. totalFrame (snd (GetCalcMatrix E src cam pm w)) = totalFrame w) \<and>
     (\<forall>src w. totalFrame (snd (setGameObject E src w)) = totalFrame w) \<and>
     (\<forall>src w. totalFrame (preBatch E src w) = totalFrame w) \<and>
     (\<forall>fc a m r w. totalFrame (snd (face_update E fc a m r w)) = totalFrame w) \<and>
     (\<forall>n w. totalFrame (snd (shouldFlush E n w)) = totalFrame w) \<and>
     (\<forall>w. totalFrame (flush E w) = totalFrame w) \<and>
     (\<forall>fc off u t w. totalFrame (snd (face_load E fc off u t w)) = totalFrame w) \<and>
     (\<forall>src w. totalFrame (postBatch E src w) = totalFrame w)"

text \<open>\<open>setGameObject\<close> leaves a current batch behind, and only a flush clears it.\<close>

definition provides_batch :: "('x, 'f, 'n, 'm, 'p) engine \<Rightarrow> bool" where
  "provides_batch E \<longleftrightarrow>
     (\<forall>src w. currentBatch (snd (setGameObject E src w)) \<noteq> None) \<and>
     (\<forall>src w. currentBatch w \<noteq> None \<longrightarrow> currentBatch (preBatch E src w) \<noteq> None) \<and>
     (\<forall>fc a m r w. currentBatch w \<noteq> None \<longrightarrow>
        currentBatch (snd (face_update E fc a m r w)) \<noteq> None) \<and>
     (\<forall>n w. currentBatch w \<noteq> None \<longrightarrow> currentBatch (snd (shouldFlush E n w)) \<noteq> None) \<and>
     (\<forall>fc off u t w. currentBatch w \<noteq> None \<longrightarrow>
        currentBatch (snd (face_load E fc off u t w)) \<noteq> None)"

text \<open>The vertices that the flushes among some calls took out of the batch.\<close>

fun flushed :: "call list \<Rightarrow> int" where
  "flushed [] = 0"
| "flushed (Call_flush before after # cs) = (before - after) + flushed cs"
| "flushed (c # cs) = flushed cs"

text \<open>The calls made since the state \<open>w\<close>, as recorded in the later state \<open>w'\<close>.\<close>

definition calls_since :: "'x world \<Rightarrow> 'x world \<Rightarrow> call list" where
  "calls_since w w' = drop (length (calls w)) (calls w')"

text \<open>
  The calls of one iteration for the face \<open>i\<close>: update, the question to the pipeline,
  then either the load, or a flush, possibly a new \<open>setGameObject\<close>, and the load at
  offset 0. The calls of the loop over \<open>n\<close> faces from \<open>i\<close> are such runs end to end.
\<close>

inductive face_calls :: "nat \<Rightarrow> call list \<Rightarrow> bool" where
  no_flush: "face_calls i [Call_update i, Call_shouldFlush 3, Call_load i off u t]"
| flush_kept:
    "face_calls i [Call_update i, Call_shouldFlush 3, Call_flush a b, Call_load i 0 u t]"
| flush_rebound:
    "face_calls i
       [Call_update i, Call_shouldFlush 3, Call_flush a b, Call_setGameObject,
        Call_load i 0 u t]"

inductive loop_calls :: "nat \<Rightarrow> nat \<Rightarrow> call list \<Rightarrow> bool" where
  done_calls: "loop_calls i 0 []"
| more_calls: "face_calls i seg \<Longrightarrow> loop_calls (Suc i) n cs \<Longrightarrow> loop_calls i (Suc n) (seg @ cs)"

subsection \<open>A small engine\<close>

text \<open>
  A pipeline with a vertex capacity, in the manner of a batching pipeline: it asks for
  a flush when the next vertices would not fit, a flush empties the batch, and
  \<open>setGameObject\<close> opens a batch at the current vertex when there is none. A load
  notes the offset it was given and moves past three vertices.
\<close>

definition small_engine :: "int \<Rightarrow> (int list, nat, int, unit, unit) engine" where
  "small_engine capacity =
     \<lparr>addToRenderList = (\<lambda>src w. w),
      pipelines_set = (\<lambda>src w. w),
      GetCalcMatrix = (\<lambda>src cam pm w. ((), w)),
      setGameObject = (\<lambda>src w.
         (0, if currentBatch w = None
             then w\<lparr>currentBatch := Some \<lparr>start = vertexCount w, count = 0\<rparr>\<rparr>
             else w)),
      preBatch = (\<lambda>src w. w),
      face_update = (\<lambda>fc a m r w. (fc, w)),
      shouldFlush = (\<lambda>n w. (vertexCount w + n > capacity, w)),
      flush = (\<lambda>w. if vertexCount w > 0 then w\<lparr>vertexCount := 0, currentBatch := None\<rparr> else w),
      face_load = (\<lambda>fc off u t w. (off + 3 * vertexComponentCount w, w\<lparr>rest := rest w @ [off]\<rparr>)),
      postBatch = (\<lambda>src w. w),
      times_number = (\<lambda>x y. x * y)\<rparr>"

definition small_world :: "int list world" where
  "small_world =
     \<lparr>vertexCount = 0, vertexComponentCount = 7, currentBatch = None, totalFrame = 0,
      calls = [], rest = []\<rparr>"

definition small_src :: "nat \<Rightarrow> (nat, int) gameobject" where
  "small_src n = \<lparr>faces = [0..<n], tintFill = False, src_alpha = 1\<rparr>"

definition small_camera :: "int camera" where
  "small_camera = \<lparr>camera_roundPixels = False, camera_alpha = 1\<rparr>"

text \<open>A loader on a device that plays \<open>mp4\<close> and knows of \<open>webm\<close> without playing it.\<close>

definition small_loader :: loader where
  "small_loader =
     \<lparr>systems_game = \<lparr>device_video = [(''mp4'', JBool True), (''webm'', JBool False)]\<rparr>,
      cacheManager_video = 0,
      queue = []\<rparr>"

text \<open>The two inherited handlers, told apart by the state they leave.\<close>

definition small_base :: file_base where
  "small_base =
     \<lparr>onProcessComplete = (\<lambda>f. f\<lparr>state := FILE_COMPLETE\<rparr>),
      onProcessError = (\<lambda>f. f\<lparr>state := FILE_ERRORED\<rparr>)\<rparr>"

text \<open>A file whose transfer has finished.\<close>

definition small_file :: video_file where
  "small_file =
     \<lparr>config_of =
        \<lparr>fc_type = ''video'', fc_cache = 0, fc_extension = JStr ''mp4'',
         fc_responseType = ''arraybuffer'', fc_key = JStr ''intro'',
         fc_url = JStr ''intro.mp4'', fc_xhrSettings = JUndefined,
         fc_config = \<lparr>cfg_loadEvent = JStr ''canplaythrough'', cfg_asBlob = JBool False\<rparr>\<rparr>,
      state = FILE_LOADED,
      data = JUndefined,
      xhrLoader = Some \<lparr>response = JBuffer [0, 1, 2]\<rparr>\<rparr>"

section \<open>Properties of the loader\<close>

subsection \<open>Strings and URL lists\<close>

lemma indexOf_from_ge: "indexOf_from s p i = - 1 \<or> int i \<le> indexOf_from s p i"
  by (induction s arbitrary: i) (auto, force)

lemma indexOf_zero: "indexOf s p = 0 \<longleftrightarrow> starts_with p s"
proof (cases s)
  case Nil
  then show ?thesis by (auto simp: indexOf_def starts_with_def)
next
  case (Cons c cs)
  have "indexOf_from cs p (Suc 0) \<noteq> 0"
    using indexOf_from_ge [of cs p "Suc 0"] by auto
  with Cons show ?thesis by (simp add: indexOf_def starts_with_def)
qed

lemma inline_url_indexOf:
  "(indexOf s ''blob:'' = 0 \<or> indexOf s ''data:'' = 0) \<longleftrightarrow> inline_url s"
  by (simp only: indexOf_zero inline_url_def)

lemma getVideoURL_step:
  assumes "entry_ok e"
  shows "getVideoURL_loop g (e # es) =
     (if inline_url (entry_url e) then Inr (JStr (entry_url e))
      else if supported g e
           then Inr (JObj [(''url'', JStr (entry_url e)), (''type'', JStr (entry_type e))])
           else getVideoURL_loop g es)"
proof (cases e)
  case (JStr s)
  then show ?thesis
    by (simp add: inline_url_indexOf supported_def extension_def entry_type_def split: option.splits)
next
  case (JObj kvs)
  with assms obtain s where u: "map_of kvs ''url'' = Some (JStr s)"
    by (auto split: option.splits jsval.splits)
  from assms JObj u consider
      (none) "map_of kvs ''type'' = None"
    | (undef) "map_of kvs ''type'' = Some JUndefined"
    | (str) t where "map_of kvs ''type'' = Some (JStr t)"
    by (auto split: option.splits jsval.splits)
  then show ?thesis
  proof cases
    case none
    with JObj u show ?thesis
      by (simp add: inline_url_indexOf supported_def extension_def entry_type_def split: option.splits)
  next
    case undef
    with JObj u show ?thesis
      by (simp add: inline_url_indexOf supported_def extension_def entry_type_def split: option.splits)
  next
    case str
    with JObj u show ?thesis
      by (simp add: inline_url_indexOf supported_def extension_def entry_type_def split: option.splits)
  qed
qed (use assms in simp_all)

lemma getVideoURL_loop_find:
  assumes "list_all entry_ok es"
  shows "getVideoURL_loop g es =
     (case find (\<lambda>e. inline_url (entry_url e) \<or> supported g e) es of
        None \<Rightarrow> Inr JNull
      | Some e \<Rightarrow>
          if inline_url (entry_url e) then Inr (JStr (entry_url e))
          else Inr (JObj [(''url'', JStr (entry_url e)), (''type'', JStr (entry_type e))]))"
  using assms
proof (induction es)
  case Nil
  show ?case by simp
next
  case (Cons e es)
  then have "entry_ok e" and "list_all entry_ok es" by simp_all
  with Cons.IH show ?case
    by (simp only: getVideoURL_step [OF \<open>entry_ok e\<close>] find.simps) simp
qed

lemma getVideoURL_entries: "getVideoURL g urls = getVideoURL_loop g (entries urls)"
  by (cases urls) (simp_all add: getVideoURL_def)

lemma no_match_not_found:
  assumes "no_match g e"
  shows "\<not> (inline_url (entry_url e) \<or> supported g e)"
proof -
  from assms have "map_of (device_video g) (entry_type e) = None"
    and "map_of Object_prototype (entry_type e) = None"
    by (simp_all add: no_match_def map_of_eq_None_iff)
  with assms show ?thesis by (simp add: no_match_def supported_def read_video_def)
qed

lemma getVideoURL_null:
  assumes "urls_ok urls" and "list_all (no_match g) (entries urls)"
  shows "getVideoURL g urls = Inr JNull"
proof -
  from assms(2) have "find (\<lambda>e. inline_url (entry_url e) \<or> supported g e) (entries urls) = None"
    by (auto simp: find_None_iff list_all_iff dest: no_match_not_found)
  with assms(1) show ?thesis
    by (simp add: getVideoURL_entries getVideoURL_loop_find urls_ok_def)
qed

lemma create_urls_of:
  "create ldr key urls loadEvent asBlob xhrSettings =
     (case getVideoURL (systems_game ldr) (urls_of key urls) of
        Inl e \<Rightarrow> Inl e
      | Inr urlConfig \<Rightarrow>
          if truthy urlConfig
          then (case VideoFile ldr key urlConfig
                       (if IsPlainObject key
                        then GetFastValue key ''loadEvent'' (JStr ''canplaythrough'')
                        else loadEvent)
                       (if IsPlainObject key
                        then GetFastValue key ''asBlob'' (JBool False) else asBlob)
                       (if IsPlainObject key
                        then GetFastValue key ''xhrSettings'' JUndefined else xhrSettings) of
                  Inl e \<Rightarrow> Inl e
                | Inr file \<Rightarrow> Inr (Some file))
          else Inr None)"
  by (simp add: create_def urls_of_def)

lemma create_none:
  assumes "urls_ok (urls_of key urls)"
    and "list_all (no_match (systems_game ldr)) (entries (urls_of key urls))"
  shows "create ldr key urls loadEvent asBlob xhrSettings = Inr None"
  by (simp add: create_urls_of getVideoURL_null [OF assms])

lemma video_single:
  assumes "\<not> isArray key"
  shows "video this key urls loadEvent asBlob xhrSettings =
     (case create this key urls loadEvent asBlob xhrSettings of
        Inl e \<Rightarrow> Inl e
      | Inr None \<Rightarrow> Inr (RThis, this)
      | Inr (Some videoFile) \<Rightarrow> Inr (RThis, addFile this videoFile))"
  using assms by (cases key) (simp_all add: video_def)

lemma video_array:
  "video this (JArr keys) urls loadEvent asBlob xhrSettings =
     (case video_loop this keys of Inl e \<Rightarrow> Inl e | Inr this1 \<Rightarrow> Inr (RThis, this1))"
  by (simp add: video_def)

lemma VideoFile_queue: "VideoFile (ldr\<lparr>queue := q\<rparr>) key urlConfig loadEvent asBlob xhrSettings =
    VideoFile ldr key urlConfig loadEvent asBlob xhrSettings"
  by (simp add: VideoFile_def split: sum.splits)

lemma create_queue: "create (ldr\<lparr>queue := q\<rparr>) key urls loadEvent asBlob xhrSettings =
    create ldr key urls loadEvent asBlob xhrSettings"
  unfolding create_def VideoFile_queue by simp

lemma video_loop_queue:
  assumes "\<forall>k \<in> set keys. \<not> isl (create ldr k JUndefined JUndefined JUndefined JUndefined)"
  shows "video_loop (ldr\<lparr>queue := q\<rparr>) keys =
     Inr (ldr\<lparr>queue := q @ List.map_filter (created ldr) keys\<rparr>)"
  using assms
proof (induction keys arbitrary: q)
  case Nil
  show ?case by (simp add: List.map_filter_simps)
next
  case (Cons k ks)
  from Cons.prems obtain r where r: "create ldr k JUndefined JUndefined JUndefined JUndefined = Inr r"
    by (cases "create ldr k JUndefined JUndefined JUndefined JUndefined") auto
  from Cons.prems have rest: "\<forall>k \<in> set ks. \<not> isl (create ldr k JUndefined JUndefined JUndefined JUndefined)"
    by simp
  show ?case
  proof (cases r)
    case None
    with r Cons.IH [OF rest, of q] show ?thesis
      by (simp add: create_queue created_def List.map_filter_simps)
  next
    case (Some vf)
    with r Cons.IH [OF rest, of "q @ [vf]"] show ?thesis
      by (simp add: create_queue created_def List.map_filter_simps addFile_def)
  qed
qed

lemma video_loop_result:
  assumes "\<forall>k \<in> set keys. \<not> isl (create ldr k JUndefined JUndefined JUndefined JUndefined)"
  shows "video_loop ldr keys = Inr (ldr\<lparr>queue := queue ldr @ List.map_filter (created ldr) keys\<rparr>)"
  using video_loop_queue [OF assms, of "queue ldr"] by simp

lemma getVideoURL_ok_cases:
  assumes "urls_ok urls"
  shows "getVideoURL g urls = Inr JNull \<or>
    (\<exists>s. getVideoURL g urls = Inr (JStr s) \<and> inline_url s) \<or>
    (\<exists>s t. getVideoURL g urls = Inr (JObj [(''url'', JStr s), (''type'', JStr t)]))"
  using assms
  by (simp add: getVideoURL_entries getVideoURL_loop_find urls_ok_def split: option.splits)

lemma inline_url_nonempty: "inline_url s \<Longrightarrow> s \<noteq> []"
  by (auto simp: inline_url_def starts_with_def)

lemma create_ok:
  assumes "urls_ok (urls_of key urls)"
  shows "\<not> isl (create ldr key urls loadEvent asBlob xhrSettings)"
  using getVideoURL_ok_cases [OF assms, of "systems_game ldr"]
  unfolding create_urls_of VideoFile_def by (auto dest: inline_url_nonempty)

subsection \<open>No supported URL\<close>

text \<open>
  C1. When no entry of the URL list matches a supported video type, nothing is loaded.
  For a well-formed URL list (the positional \<open>urls\<close>, or the \<open>url\<close> option of a
  configuration object) in which no entry starts with \<open>blob:\<close> or \<open>data:\<close> and no
  entry's type (its explicit \<open>type\<close> when it has one, its extension otherwise), in
  the lower case in which \<open>getVideoURL\<close> looks it up, is a key of
  \<open>game.device.video\<close> or the name of a property that the table inherits from
  \<open>Object.prototype\<close>: \<open>getVideoURL\<close> returns \<open>null\<close>, \<open>create\<close> builds no file and
  returns none, and the \<open>video\<close> command leaves the loader, and so its queue, as it
  was. The same holds for an array of configuration objects that all are of this kind.
\<close>

theorem no_supported_url_gives_null:
  assumes "urls_ok (urls_of key urls)"
    and "list_all (no_match (systems_game ldr)) (entries (urls_of key urls))"
    and "\<not> isArray key"
  shows "getVideoURL (systems_game ldr) (urls_of key urls) = Inr JNull \<and>
    create ldr key urls loadEvent asBlob xhrSettings = Inr None \<and>
    video ldr key urls loadEvent asBlob xhrSettings = Inr (RThis, ldr) \<and>
    (list_all (\<lambda>k. IsPlainObject k \<and> urls_ok (urls_of k JUndefined) \<and>
                   list_all (no_match (systems_game ldr)) (entries (urls_of k JUndefined))) keys
     \<longrightarrow> video ldr (JArr keys) urls loadEvent asBlob xhrSettings = Inr (RThis, ldr))"
proof (intro conjI impI)
  show "getVideoURL (systems_game ldr) (urls_of key urls) = Inr JNull"
    using assms(1,2) by (rule getVideoURL_null)
  show c: "create ldr key urls loadEvent asBlob xhrSettings = Inr None"
    using assms(1,2) by (rule create_none)
  show "video ldr key urls loadEvent asBlob xhrSettings = Inr (RThis, ldr)"
    by (simp add: video_single [OF assms(3)] c)
next
  assume a: "list_all (\<lambda>k. IsPlainObject k \<and> urls_ok (urls_of k JUndefined) \<and>
                   list_all (no_match (systems_game ldr)) (entries (urls_of k JUndefined))) keys"
  then have none: "\<forall>k \<in> set keys. create ldr k JUndefined JUndefined JUndefined JUndefined = Inr None"
    by (auto simp: list_all_iff intro!: create_none)
  then have "List.map_filter (created ldr) keys = []"
    by (induction keys) (simp_all add: List.map_filter_simps created_def)
  moreover from none have "\<forall>k \<in> set keys. \<not> isl (create ldr k JUndefined JUndefined JUndefined JUndefined)"
    by simp
  ultimately have "video_loop ldr keys = Inr ldr"
    by (simp add: video_loop_result)
  then show "video ldr (JArr keys) urls loadEvent asBlob xhrSettings = Inr (RThis, ldr)"
    by (simp add: video_array)
qed

theorem no_supported_url_gives_null_witness:
  "urls_ok (urls_of (JStr ''intro'') (JArr [JStr ''intro.ogv'', JObj [(''url'', JStr ''intro.bin''), (''type'', JStr ''AVI'')]])) \<and>
   list_all (no_match (systems_game small_loader))
     (entries (urls_of (JStr ''intro'') (JArr [JStr ''intro.ogv'', JObj [(''url'', JStr ''intro.bin''), (''type'', JStr ''AVI'')]]))) \<and>
   \<not> isArray (JStr ''intro'') \<and>
   getVideoURL (systems_game small_loader)
     (JArr [JStr ''intro.ogv'', JObj [(''url'', JStr ''intro.bin''), (''type'', JStr ''AVI'')]]) = Inr JNull \<and>
   create small_loader (JStr ''intro'')
     (JArr [JStr ''intro.ogv'', JObj [(''url'', JStr ''intro.bin''), (''type'', JStr ''AVI'')]])
     (JStr ''loadeddata'') (JBool False) JUndefined = Inr None \<and>
   video small_loader (JStr ''intro'')
     (JArr [JStr ''intro.ogv'', JObj [(''url'', JStr ''intro.bin''), (''type'', JStr ''AVI'')]])
     (JStr ''loadeddata'') (JBool False) JUndefined = Inr (RThis, small_loader) \<and>
   video small_loader (JArr [JObj [(''key'', JStr ''a''), (''url'', JStr ''a.ogv'')], JObj [(''key'', JStr ''b'')]])
     (JArr [JStr ''intro.ogv'', JObj [(''url'', JStr ''intro.bin''), (''type'', JStr ''AVI'')]])
     (JStr ''loadeddata'') (JBool False) JUndefined = Inr (RThis, small_loader)"
proof -
  let ?us = "JArr [JStr ''intro.ogv'', JObj [(''url'', JStr ''intro.bin''), (''type'', JStr ''AVI'')]]"
  let ?ks = "[JObj [(''key'', JStr ''a''), (''url'', JStr ''a.ogv'')], JObj [(''key'', JStr ''b'')]]"
  have h1: "urls_ok (urls_of (JStr ''intro'') ?us)"
    by code_simp
  have h2: "list_all (no_match (systems_game small_loader)) (entries (urls_of (JStr ''intro'') ?us))"
    by code_simp
  have h3: "\<not> isArray (JStr ''intro'')"
    by simp
  have h4: "list_all (\<lambda>k. IsPlainObject k \<and> urls_ok (urls_of k JUndefined) \<and>
       list_all (no_match (systems_game small_loader)) (entries (urls_of k JUndefined))) ?ks"
    by code_simp
  have u: "urls_of (JStr ''intro'') ?us = ?us"
    by (simp add: urls_of_def)
  from no_supported_url_gives_null [OF h1 h2 h3, of "JStr ''loadeddata''" "JBool False" JUndefined ?ks] h1 h2 h3 h4 u
  show ?thesis by simp
qed

text \<open>
  C1 with the extension taken as it is written fails: the lookup is in lower case.
  On a device that plays \<open>mp4\<close>, the URL \<open>clip.MP4\<close> does not start with \<open>blob:\<close> or
  \<open>data:\<close>, its extension \<open>MP4\<close> is no key of the device table and it has no explicit
  type; yet \<open>getVideoURL\<close> returns an object, \<open>create\<close> returns a file, and the
  command adds it to the queue.
\<close>

theorem no_match_stated_counterexample:
  "urls_ok (JStr ''clip.MP4'') \<and>
   list_all (no_match_stated (systems_game small_loader)) (entries (JStr ''clip.MP4'')) \<and>
   extension ''clip.MP4'' = ''MP4'' \<and>
   getVideoURL (systems_game small_loader) (JStr ''clip.MP4'') =
     Inr (JObj [(''url'', JStr ''clip.MP4''), (''type'', JStr ''mp4'')]) \<and>
   create small_loader (JStr ''clip'') (JStr ''clip.MP4'') JUndefined JUndefined JUndefined
     \<noteq> Inr None \<and>
   video small_loader (JStr ''clip'') (JStr ''clip.MP4'') JUndefined JUndefined JUndefined
     \<noteq> Inr (RThis, small_loader)"
  by code_simp

text \<open>
  The read of the type on the device table has no own-property guard, so a type that
  names an inherited property is found as well: the URL \<open>clip.constructor\<close> is taken
  as supported on a table that has no such key. The property above leaves such types
  out.
\<close>

lemma inherited_type_matches:
  "entry_type (JStr ''clip.constructor'') \<notin> fst ` set (device_video (systems_game small_loader)) \<and>
   getVideoURL (systems_game small_loader) (JStr ''clip.constructor'') =
     Inr (JObj [(''url'', JStr ''clip.constructor''), (''type'', JStr ''constructor'')])"
  by code_simp

subsection \<open>onProcess\<close>

text \<open>
  C3. \<open>onProcess\<close> has a success path only. Called on a file that has its transport
  object (\<open>this.xhrLoader\<close>), it sets the state to \<open>FILE_PROCESSING\<close>, sets the data
  to the response of the transport, and then hands the file to \<open>onProcessComplete\<close>:
  it does not fail before that, and whatever error handler the base class provides
  plays no part in the result, on any file.
\<close>

theorem onProcess_success_path:
  assumes "xhrLoader this = Some x"
  shows "onProcess base this =
      Inr (onProcessComplete base (this\<lparr>state := FILE_PROCESSING, data := response x\<rparr>)) \<and>
    onProcess (base\<lparr>onProcessError := handler\<rparr>) this = onProcess base this"
  using assms by (simp add: onProcess_def)

theorem onProcess_success_path_witness:
  "xhrLoader small_file = Some \<lparr>response = JBuffer [0, 1, 2]\<rparr> \<and>
   onProcess small_base small_file =
     Inr (small_file\<lparr>state := FILE_COMPLETE, data := JBuffer [0, 1, 2]\<rparr>) \<and>
   onProcess (small_base\<lparr>onProcessError := (\<lambda>f. f\<lparr>data := JNull\<rparr>)\<rparr>) small_file =
     onProcess small_base small_file"
proof -
  have h: "xhrLoader small_file = Some \<lparr>response = JBuffer [0, 1, 2]\<rparr>"
    by (simp add: small_file_def)
  from onProcess_success_path [OF h, of small_base "\<lambda>f. f\<lparr>data := JNull\<rparr>"] h
  show ?thesis by (simp add: small_base_def)
qed

text \<open>
  C3 for every call fails: there is no guard on \<open>this.xhrLoader\<close>. On a file that has
  no transport yet, as the file that \<open>create\<close> has just returned, the read of
  \<open>this.xhrLoader.response\<close> throws before \<open>onProcessComplete\<close> is reached.
\<close>

theorem onProcess_without_transport_counterexample:
  "xhrLoader
     (File_call
        \<lparr>fc_type = ''video'', fc_cache = 0, fc_extension = JStr ''mp4'',
         fc_responseType = ''arraybuffer'', fc_key = JStr ''intro'',
         fc_url = JStr ''intro.mp4'', fc_xhrSettings = JUndefined,
         fc_config = \<lparr>cfg_loadEvent = JUndefined, cfg_asBlob = JUndefined\<rparr>\<rparr>) = None \<and>
   create small_loader (JStr ''intro'') (JStr ''intro.mp4'') JUndefined JUndefined JUndefined =
     Inr (Some (File_call
        \<lparr>fc_type = ''video'', fc_cache = 0, fc_extension = JStr ''mp4'',
         fc_responseType = ''arraybuffer'', fc_key = JStr ''intro'',
         fc_url = JStr ''intro.mp4'', fc_xhrSettings = JUndefined,
         fc_config = \<lparr>cfg_loadEvent = JUndefined, cfg_asBlob = JUndefined\<rparr>\<rparr>)) \<and>
   onProcess small_base
     (File_call
        \<lparr>fc_type = ''video'', fc_cache = 0, fc_extension = JStr ''mp4'',
         fc_responseType = ''arraybuffer'', fc_key = JStr ''intro'',
         fc_url = JStr ''intro.mp4'', fc_xhrSettings = JUndefined,
         fc_config = \<lparr>cfg_loadEvent = JUndefined, cfg_asBlob = JUndefined\<rparr>\<rparr>) = Inl TypeError"
  by code_simp

subsection \<open>Configuration objects\<close>

lemma VideoFile_rekey:
  "VideoFile ldr key urlConfig loadEvent asBlob xhrSettings =
     map_sum id (rekey key) (VideoFile ldr key0 urlConfig loadEvent asBlob xhrSettings)"
  by (simp add: VideoFile_def rekey_def File_call_def split: sum.splits)

text \<open>
  C4. When the key given to \<open>create\<close> is a plain object, the URL list is the \<open>url\<close>
  option of the object (default: the empty list), and the file that is built carries
  \<open>loadEvent\<close> from the option \<open>loadEvent\<close> (default: \<open>canplaythrough\<close>), \<open>asBlob\<close>
  from \<open>asBlob\<close> (default: \<open>false\<close>) and \<open>xhrSettings\<close> from \<open>xhrSettings\<close>
  (default: \<open>undefined\<close>); the object itself stays the key of the file. So the call
  behaves as the positional call on these four options. Nothing else of the object is
  read, and the positional arguments of the call are overridden: any others give the
  same result.
\<close>

theorem create_config_object:
  assumes "IsPlainObject key" and "\<not> IsPlainObject key0"
  shows "create ldr key urls loadEvent asBlob xhrSettings =
      (case getVideoURL (systems_game ldr) (GetFastValue key ''url'' (JArr [])) of
         Inl e \<Rightarrow> Inl e
       | Inr urlConfig \<Rightarrow>
           if truthy urlConfig
           then (case get_prop urlConfig ''type'' of
                   Inl e \<Rightarrow> Inl e
                 | Inr ext \<Rightarrow>
                     (case get_prop urlConfig ''url'' of
                        Inl e \<Rightarrow> Inl e
                      | Inr u \<Rightarrow>
                          Inr (Some
                            \<lparr>config_of =
                               \<lparr>fc_type = ''video'',
                                fc_cache = cacheManager_video ldr,
                                fc_extension = ext,
                                fc_responseType = ''arraybuffer'',
                                fc_key = key,
                                fc_url = u,
                                fc_xhrSettings = GetFastValue key ''xhrSettings'' JUndefined,
                                fc_config =
                                  \<lparr>cfg_loadEvent =
                                     GetFastValue key ''loadEvent'' (JStr ''canplaythrough''),
                                   cfg_asBlob = GetFastValue key ''asBlob'' (JBool False)\<rparr>\<rparr>,
                             state = FILE_PENDING, data = JUndefined, xhrLoader = None\<rparr>)))
           else Inr None) \<and>
    create ldr key urls loadEvent asBlob xhrSettings =
      map_sum id (map_option (rekey key))
        (create ldr key0
           (GetFastValue key ''url'' (JArr []))
           (GetFastValue key ''loadEvent'' (JStr ''canplaythrough''))
           (GetFastValue key ''asBlob'' (JBool False))
           (GetFastValue key ''xhrSettings'' JUndefined)) \<and>
    create ldr key urls loadEvent asBlob xhrSettings =
      create ldr key urls' loadEvent' asBlob' xhrSettings'"
proof (intro conjI)
  show "create ldr key urls loadEvent asBlob xhrSettings =
      (case getVideoURL (systems_game ldr) (GetFastValue key ''url'' (JArr [])) of
         Inl e \<Rightarrow> Inl e
       | Inr urlConfig \<Rightarrow>
           if truthy urlConfig
           then (case get_prop urlConfig ''type'' of
                   Inl e \<Rightarrow> Inl e
                 | Inr ext \<Rightarrow>
                     (case get_prop urlConfig ''url'' of
                        Inl e \<Rightarrow> Inl e
                      | Inr u \<Rightarrow>
                          Inr (Some
                            \<lparr>config_of =
                               \<lparr>fc_type = ''video'',
                                fc_cache = cacheManager_video ldr,
                                fc_extension = ext,
                                fc_responseType = ''arraybuffer'',
                                fc_key = key,
                                fc_url = u,
                                fc_xhrSettings = GetFastValue key ''xhrSettings'' JUndefined,
                                fc_config =
                                  \<lparr>cfg_loadEvent =
                                     GetFastValue key ''loadEvent'' (JStr ''canplaythrough''),
                                   cfg_asBlob = GetFastValue key ''asBlob'' (JBool False)\<rparr>\<rparr>,
                             state = FILE_PENDING, data = JUndefined, xhrLoader = None\<rparr>)))
           else Inr None)"
    using assms(1)
    by (simp add: create_def VideoFile_def File_call_def split: sum.splits)
  show "create ldr key urls loadEvent asBlob xhrSettings =
      map_sum id (map_option (rekey key))
        (create ldr key0
           (GetFastValue key ''url'' (JArr []))
           (GetFastValue key ''loadEvent'' (JStr ''canplaythrough''))
           (GetFastValue key ''asBlob'' (JBool False))
           (GetFastValue key ''xhrSettings'' JUndefined))"
    using assms unfolding create_def VideoFile_rekey [of ldr key _ _ _ _ key0]
    by (simp split: sum.splits)
  show "create ldr key urls loadEvent asBlob xhrSettings =
      create ldr key urls' loadEvent' asBlob' xhrSettings'"
    using assms(1) by (simp add: create_def)
qed

theorem create_config_object_witness:
  "IsPlainObject
     (JObj [(''key'', JStr ''intro''), (''url'', JStr ''intro.mp4''),
            (''loadEvent'', JStr ''loadeddata''), (''xhrSettings'', JObj [(''timeout'', JNum 5)])]) \<and>
   IsPlainObject (JObj [(''url'', JStr ''intro.mp4''), (''asBlob'', JBool True)]) \<and>
   \<not> IsPlainObject (JStr ''intro'') \<and>
   create small_loader
     (JObj [(''key'', JStr ''intro''), (''url'', JStr ''intro.mp4''),
            (''loadEvent'', JStr ''loadeddata''), (''xhrSettings'', JObj [(''timeout'', JNum 5)])])
     (JStr ''other.webm'') (JStr ''canplay'') (JBool True) JNull =
   Inr (Some
     \<lparr>config_of =
        \<lparr>fc_type = ''video'', fc_cache = 0, fc_extension = JStr ''mp4'',
         fc_responseType = ''arraybuffer'',
         fc_key =
           JObj [(''key'', JStr ''intro''), (''url'', JStr ''intro.mp4''),
                 (''loadEvent'', JStr ''loadeddata''),
                 (''xhrSettings'', JObj [(''timeout'', JNum 5)])],
         fc_url = JStr ''intro.mp4'', fc_xhrSettings = JObj [(''timeout'', JNum 5)],
         fc_config = \<lparr>cfg_loadEvent = JStr ''loadeddata'', cfg_asBlob = JBool False\<rparr>\<rparr>,
      state = FILE_PENDING, data = JUndefined, xhrLoader = None\<rparr>) \<and>
   create small_loader
     (JObj [(''url'', JStr ''intro.mp4''), (''asBlob'', JBool True)])
     (JStr ''other.webm'') (JStr ''canplay'') (JBool False) (JObj [(''timeout'', JNum 5)]) =
   Inr (Some
     \<lparr>config_of =
        \<lparr>fc_type = ''video'', fc_cache = 0, fc_extension = JStr ''mp4'',
         fc_responseType = ''arraybuffer'',
         fc_key = JObj [(''url'', JStr ''intro.mp4''), (''asBlob'', JBool True)],
         fc_url = JStr ''intro.mp4'', fc_xhrSettings = JUndefined,
         fc_config = \<lparr>cfg_loadEvent = JStr ''canplaythrough'', cfg_asBlob = JBool True\<rparr>\<rparr>,
      state = FILE_PENDING, data = JUndefined, xhrLoader = None\<rparr>) \<and>
   create small_loader
     (JObj [(''url'', JStr ''intro.mp4''), (''asBlob'', JBool True)])
     (JStr ''other.webm'') (JStr ''canplay'') (JBool False) (JObj [(''timeout'', JNum 5)]) =
   create small_loader
     (JObj [(''url'', JStr ''intro.mp4''), (''asBlob'', JBool True)])
     JUndefined JUndefined JUndefined JUndefined"
proof -
  let ?k1 = "JObj [(''key'', JStr ''intro''), (''url'', JStr ''intro.mp4''),
            (''loadEvent'', JStr ''loadeddata''), (''xhrSettings'', JObj [(''timeout'', JNum 5)])]"
  let ?k2 = "JObj [(''url'', JStr ''intro.mp4''), (''asBlob'', JBool True)]"
  let ?f1 = "\<lparr>config_of =
        \<lparr>fc_type = ''video'', fc_cache = 0, fc_extension = JStr ''mp4'',
         fc_responseType = ''arraybuffer'', fc_key = ?k1,
         fc_url = JStr ''intro.mp4'', fc_xhrSettings = JObj [(''timeout'', JNum 5)],
         fc_config = \<lparr>cfg_loadEvent = JStr ''loadeddata'', cfg_asBlob = JBool False\<rparr>\<rparr>,
      state = FILE_PENDING, data = JUndefined, xhrLoader = None\<rparr>"
  let ?f2 = "\<lparr>config_of =
        \<lparr>fc_type = ''video'', fc_cache = 0, fc_extension = JStr ''mp4'',
         fc_responseType = ''arraybuffer'', fc_key = ?k2,
         fc_url = JStr ''intro.mp4'', fc_xhrSettings = JUndefined,
         fc_config = \<lparr>cfg_loadEvent = JStr ''canplaythrough'', cfg_asBlob = JBool True\<rparr>\<rparr>,
      state = FILE_PENDING, data = JUndefined, xhrLoader = None\<rparr>"
  have h1: "IsPlainObject ?k1" by simp
  have h2: "IsPlainObject ?k2" by simp
  have h0: "\<not> IsPlainObject (JStr ''intro'')" by simp
  have c: "cacheManager_video small_loader = 0" by (simp add: small_loader_def)
  have u1: "getVideoURL (systems_game small_loader) (JStr ''intro.mp4'') =
      Inr (JObj [(''url'', JStr ''intro.mp4''), (''type'', JStr ''mp4'')])"
    by code_simp
  note i1 = create_config_object [OF h1 h0, where ldr = small_loader and urls = "JStr ''other.webm''"
      and loadEvent = "JStr ''canplay''" and asBlob = "JBool True" and xhrSettings = JNull]
  note i2 = create_config_object [OF h2 h0, where ldr = small_loader and urls = "JStr ''other.webm''"
      and loadEvent = "JStr ''canplay''" and asBlob = "JBool False"
      and xhrSettings = "JObj [(''timeout'', JNum 5)]" and urls' = JUndefined
      and loadEvent' = JUndefined and asBlob' = JUndefined and xhrSettings' = JUndefined]
  have a1: "create small_loader ?k1 (JStr ''other.webm'') (JStr ''canplay'') (JBool True) JNull
      = Inr (Some ?f1)"
    using i1 [THEN conjunct1] by (simp add: u1 c)
  have a2: "create small_loader ?k2 (JStr ''other.webm'') (JStr ''canplay'') (JBool False)
      (JObj [(''timeout'', JNum 5)]) = Inr (Some ?f2)"
    using i2 [THEN conjunct1] by (simp add: u1 c)
  from h1 h2 h0 a1 a2 i2 [THEN conjunct2, THEN conjunct2] show ?thesis
    by (intro conjI)
qed

subsection \<open>The load queue\<close>

text \<open>
  C5. The \<open>video\<close> command adds to the load queue every file that \<open>create\<close>
  returns. For a single key the queue grows by exactly that file when there is one and
  stays as it is when there is none. For an array of keys, none of which makes
  \<open>create\<close> throw, the queue grows by the files created for the elements, in the
  order of the elements. Once the transport of a file is there, \<open>onProcess\<close> passes the
  file on with the raw response as its data.
\<close>

theorem video_adds_created_files:
  shows "(\<not> isArray key \<longrightarrow>
      video ldr key urls loadEvent asBlob xhrSettings =
        (case create ldr key urls loadEvent asBlob xhrSettings of
           Inl e \<Rightarrow> Inl e
         | Inr None \<Rightarrow> Inr (RThis, ldr)
         | Inr (Some vf) \<Rightarrow> Inr (RThis, ldr\<lparr>queue := queue ldr @ [vf]\<rparr>))) \<and>
    (list_all (\<lambda>k. \<not> isl (create ldr k JUndefined JUndefined JUndefined JUndefined)) keys \<longrightarrow>
      video ldr (JArr keys) urls loadEvent asBlob xhrSettings =
        Inr (RThis, ldr\<lparr>queue := queue ldr @ List.map_filter (created ldr) keys\<rparr>)) \<and>
    onProcess base (vf0\<lparr>xhrLoader := Some x\<rparr>) =
      Inr (onProcessComplete base
             (vf0\<lparr>xhrLoader := Some x, state := FILE_PROCESSING, data := response x\<rparr>))"
proof (intro conjI impI)
  assume "\<not> isArray key"
  then show "video ldr key urls loadEvent asBlob xhrSettings =
        (case create ldr key urls loadEvent asBlob xhrSettings of
           Inl e \<Rightarrow> Inl e
         | Inr None \<Rightarrow> Inr (RThis, ldr)
         | Inr (Some vf) \<Rightarrow> Inr (RThis, ldr\<lparr>queue := queue ldr @ [vf]\<rparr>))"
    by (simp add: video_single addFile_def split: sum.splits option.splits)
next
  assume "list_all (\<lambda>k. \<not> isl (create ldr k JUndefined JUndefined JUndefined JUndefined)) keys"
  then show "video ldr (JArr keys) urls loadEvent asBlob xhrSettings =
        Inr (RThis, ldr\<lparr>queue := queue ldr @ List.map_filter (created ldr) keys\<rparr>)"
    by (simp add: video_array video_loop_result list_all_iff)
next
  show "onProcess base (vf0\<lparr>xhrLoader := Some x\<rparr>) =
      Inr (onProcessComplete base
             (vf0\<lparr>xhrLoader := Some x, state := FILE_PROCESSING, data := response x\<rparr>))"
    by (simp add: onProcess_def)
qed

theorem video_adds_created_files_witness:
  "\<not> isArray (JStr ''intro'') \<and>
   list_all (\<lambda>k. \<not> isl (create small_loader k JUndefined JUndefined JUndefined JUndefined))
     [JObj [(''url'', JStr ''a.mp4'')], JObj [(''url'', JStr ''b.webm'')],
      JObj [(''url'', JStr ''blob:c'')]] \<and>
   (\<exists>vf. create small_loader (JStr ''intro'') (JStr ''intro.mp4'') JUndefined JUndefined JUndefined
           = Inr (Some vf) \<and>
         video small_loader (JStr ''intro'') (JStr ''intro.mp4'') JUndefined JUndefined JUndefined
           = Inr (RThis, small_loader\<lparr>queue := [vf]\<rparr>)) \<and>
   (\<exists>ldr'. video small_loader
             (JArr [JObj [(''url'', JStr ''a.mp4'')], JObj [(''url'', JStr ''b.webm'')],
                    JObj [(''url'', JStr ''blob:c'')]])
             (JStr ''intro.mp4'') JUndefined JUndefined JUndefined = Inr (RThis, ldr') \<and>
           map (\<lambda>vf. fc_url (config_of vf)) (queue ldr') = [JStr ''a.mp4'', JUndefined]) \<and>
   onProcess small_base (small_file\<lparr>xhrLoader := Some \<lparr>response = JBuffer [7]\<rparr>\<rparr>) =
     Inr (small_file\<lparr>xhrLoader := Some \<lparr>response = JBuffer [7]\<rparr>,
                     state := FILE_COMPLETE, data := JBuffer [7]\<rparr>)"
proof -
  let ?ks = "[JObj [(''url'', JStr ''a.mp4'')], JObj [(''url'', JStr ''b.webm'')],
      JObj [(''url'', JStr ''blob:c'')]]"
  let ?vf = "File_call
     \<lparr>fc_type = ''video'', fc_cache = 0, fc_extension = JStr ''mp4'',
      fc_responseType = ''arraybuffer'', fc_key = JStr ''intro'',
      fc_url = JStr ''intro.mp4'', fc_xhrSettings = JUndefined,
      fc_config = \<lparr>cfg_loadEvent = JUndefined, cfg_asBlob = JUndefined\<rparr>\<rparr>"
  have h1: "\<not> isArray (JStr ''intro'')" by simp
  have h2: "list_all (\<lambda>k. \<not> isl (create small_loader k JUndefined JUndefined JUndefined JUndefined)) ?ks"
    by code_simp
  have c: "create small_loader (JStr ''intro'') (JStr ''intro.mp4'') JUndefined JUndefined JUndefined
           = Inr (Some ?vf)"
    by code_simp
  have q: "queue small_loader = []" by (simp add: small_loader_def)
  have m: "map (\<lambda>vf. fc_url (config_of vf)) (List.map_filter (created small_loader) ?ks)
      = [JStr ''a.mp4'', JUndefined]"
    by code_simp
  note inst = video_adds_created_files [where key = "JStr ''intro''" and ldr = small_loader
      and urls = "JStr ''intro.mp4''" and loadEvent = JUndefined and asBlob = JUndefined
      and xhrSettings = JUndefined and keys = ?ks and base = small_base and ?vf0.0 = small_file
      and x = "\<lparr>response = JBuffer [7]\<rparr>"]
  from inst [THEN conjunct1, rule_format, OF h1]
  have a: "video small_loader (JStr ''intro'') (JStr ''intro.mp4'') JUndefined JUndefined JUndefined
           = Inr (RThis, small_loader\<lparr>queue := [?vf]\<rparr>)"
    by (simp add: c q)
  from inst [THEN conjunct2, THEN conjunct1, rule_format, OF h2]
  have b: "video small_loader (JArr ?ks) (JStr ''intro.mp4'') JUndefined JUndefined JUndefined
      = Inr (RThis, small_loader\<lparr>queue := List.map_filter (created small_loader) ?ks\<rparr>)"
    by (simp only: q append_Nil)
  from inst [THEN conjunct2, THEN conjunct2]
  have d: "onProcess small_base (small_file\<lparr>xhrLoader := Some \<lparr>response = JBuffer [7]\<rparr>\<rparr>) =
     Inr (small_file\<lparr>xhrLoader := Some \<lparr>response = JBuffer [7]\<rparr>,
                     state := FILE_COMPLETE, data := JBuffer [7]\<rparr>)"
    by (simp add: small_base_def)
  have mq: "map (\<lambda>vf. fc_url (config_of vf))
      (queue (small_loader\<lparr>queue := List.map_filter (created small_loader) ?ks\<rparr>))
      = [JStr ''a.mp4'', JUndefined]"
    using m by simp
  have b': "\<exists>ldr'. video small_loader (JArr ?ks) (JStr ''intro.mp4'') JUndefined JUndefined JUndefined
       = Inr (RThis, ldr') \<and>
       map (\<lambda>vf. fc_url (config_of vf)) (queue ldr') = [JStr ''a.mp4'', JUndefined]"
    using b mq by (intro exI conjI)
  have a': "\<exists>vf. create small_loader (JStr ''intro'') (JStr ''intro.mp4'') JUndefined JUndefined JUndefined
           = Inr (Some vf) \<and>
         video small_loader (JStr ''intro'') (JStr ''intro.mp4'') JUndefined JUndefined JUndefined
           = Inr (RThis, small_loader\<lparr>queue := [vf]\<rparr>)"
    using c a by (intro exI conjI)
  from h1 h2 a' b' d show ?thesis by (intro conjI)
qed

subsection \<open>The three shapes of a video URL\<close>



subsection \<open>The value of the command\<close>

text \<open>
  C10. Whenever the \<open>video\<close> command returns, it returns the loader itself, never
  \<open>null\<close> or \<open>undefined\<close>; and on well-formed arguments it does return, also when no
  URL is supported and no file is created or added.
\<close>

theorem video_returns_loader:
  shows "(\<forall>r ldr'. video ldr key urls loadEvent asBlob xhrSettings = Inr (r, ldr') \<longrightarrow> r = RThis) \<and>
    (video_args_ok key urls \<longrightarrow>
       (\<exists>ldr'. video ldr key urls loadEvent asBlob xhrSettings = Inr (RThis, ldr')))"
proof (intro conjI allI impI)
  fix r ldr'
  assume "video ldr key urls loadEvent asBlob xhrSettings = Inr (r, ldr')"
  then show "r = RThis"
    by (auto simp: video_def split: jsval.splits sum.splits option.splits)
next
  assume ok: "video_args_ok key urls"
  show "\<exists>ldr'. video ldr key urls loadEvent asBlob xhrSettings = Inr (RThis, ldr')"
  proof (cases "isArray key")
    case True
    then obtain keys where key: "key = JArr keys" by (cases key) auto
    with ok have "\<forall>k \<in> set keys. urls_ok (urls_of k JUndefined)"
      by (simp add: video_args_ok_def list_all_iff)
    then have "\<forall>k \<in> set keys. \<not> isl (create ldr k JUndefined JUndefined JUndefined JUndefined)"
      using create_ok by blast
    then show ?thesis
      unfolding key by (simp add: video_array video_loop_result)
  next
    case False
    with ok have "urls_ok (urls_of key urls)"
      by (cases key) (simp_all add: video_args_ok_def)
    then have "\<not> isl (create ldr key urls loadEvent asBlob xhrSettings)"
      by (rule create_ok)
    then show ?thesis
      by (cases "create ldr key urls loadEvent asBlob xhrSettings")
        (auto simp: video_single [OF False] split: option.splits)
  qed
qed

theorem video_returns_loader_witness:
  "video_args_ok (JStr ''intro'') (JStr ''intro.ogv'') \<and>
   (\<exists>ldr'. video small_loader (JStr ''intro'') (JStr ''intro.ogv'')
             (JStr ''canplay'') (JBool False) JUndefined = Inr (RThis, ldr'))"
proof -
  have h: "video_args_ok (JStr ''intro'') (JStr ''intro.ogv'')" by code_simp
  from video_returns_loader [of small_loader "JStr ''intro''" "JStr ''intro.ogv''"
      "JStr ''canplay''" "JBool False" JUndefined] h
  show ?thesis by blast
qed


section \<open>Properties of the renderer\<close>

subsection \<open>Recorded calls\<close>

lemma invoke_fields:
  "fst (invoke c f w) = fst (f w)"
  "calls (snd (invoke c f w)) = calls w @ [c]"
  "vertexCount (snd (invoke c f w)) = vertexCount (snd (f w))"
  "vertexComponentCount (snd (invoke c f w)) = vertexComponentCount (snd (f w))"
  "currentBatch (snd (invoke c f w)) = currentBatch (snd (f w))"
  "totalFrame (snd (invoke c f w)) = totalFrame (snd (f w))"
  by (simp_all add: invoke_def split_beta)

lemma invoke_unit_fields:
  "calls (invoke_unit c g w) = calls w @ [c]"
  "vertexCount (invoke_unit c g w) = vertexCount (g w)"
  "vertexComponentCount (invoke_unit c g w) = vertexComponentCount (g w)"
  "currentBatch (invoke_unit c g w) = currentBatch (g w)"
  "totalFrame (invoke_unit c g w) = totalFrame (g w)"
  by (simp_all add: invoke_unit_def)

lemma invoke_flush_fields:
  "calls (invoke_flush g w) = calls w @ [Call_flush (vertexCount w) (vertexCount (g w))]"
  "vertexCount (invoke_flush g w) = vertexCount (g w)"
  "vertexComponentCount (invoke_flush g w) = vertexComponentCount (g w)"
  "currentBatch (invoke_flush g w) = currentBatch (g w)"
  "totalFrame (invoke_flush g w) = totalFrame (g w)"
  by (simp_all add: invoke_flush_def)

lemma flushed_append: "flushed (xs @ ys) = flushed xs + flushed ys"
  by (induction xs rule: flushed.induct) simp_all

lemma calls_since_append: "calls w' = calls w @ cs \<Longrightarrow> calls_since w w' = cs"
  by (simp add: calls_since_def)

subsection \<open>One iteration\<close>

text \<open>The calls of one iteration, with its intermediate states named.\<close>

lemma batch_face_calls_exact:
  assumes "batch_face E src i fc (w, loc) = Inr (w', loc')"
  shows "(let w1 = snd (invoke (Call_update i)
                    (face_update E fc (alpha loc) (calcMatrix loc) (roundPixels loc)) w);
              sf = fst (invoke (Call_shouldFlush 3) (shouldFlush E 3) w1);
              w2 = snd (invoke (Call_shouldFlush 3) (shouldFlush E 3) w1);
              w3 = invoke_flush (flush E) w2
          in calls w' = calls w @
               [Call_update i, Call_shouldFlush 3] @
               (if sf
                then Call_flush (vertexCount w2) (vertexCount w3) #
                       (if currentBatch w3 = None then [Call_setGameObject] else [])
                else []) @
               [Call_load i (if sf then 0 else vertexOffset loc) (textureUnit loc')
                  (tintEffect loc)] \<and>
             textureUnit loc' =
               (if sf \<and> currentBatch w3 = None
                then fst (invoke Call_setGameObject (setGameObject E src) w3)
                else textureUnit loc))"
  using assms
  by (auto simp: batch_face_def split_beta Let_def invoke_fields invoke_flush_fields
      split: if_splits option.splits)


lemma batch_face_calls:
  assumes "batch_face E src i fc (w, loc) = Inr (w', loc')"
  shows "\<exists>seg. calls w' = calls w @ seg \<and> face_calls i seg"
  using batch_face_calls_exact [OF assms]
  by (auto simp: Let_def intro: face_calls.intros split: if_splits)

lemma batch_faces_calls:
  assumes "batch_faces E src i fcs (w, loc) = Inr (w', loc')"
  shows "\<exists>cs. calls w' = calls w @ cs \<and> loop_calls i (length fcs) cs"
  using assms
proof (induction fcs arbitrary: i w loc)
  case Nil
  then show ?case by (auto intro: loop_calls.intros)
next
  case (Cons fc fcs)
  from Cons.prems obtain w1 loc1 where
    one: "batch_face E src i fc (w, loc) = Inr (w1, loc1)" and
    more: "batch_faces E src (Suc i) fcs (w1, loc1) = Inr (w', loc')"
    by (auto split: sum.splits)
  from batch_face_calls [OF one] obtain seg where
    seg: "calls w1 = calls w @ seg" "face_calls i seg" by blast
  from Cons.IH [OF more] obtain cs where
    cs: "calls w' = calls w1 @ cs" "loop_calls (Suc i) (length fcs) cs" by blast
  from seg cs have "calls w' = calls w @ (seg @ cs)" by simp
  moreover from seg cs have "loop_calls i (length (fc # fcs)) (seg @ cs)"
    by (auto intro: loop_calls.intros)
  ultimately show ?case by blast
qed

text \<open>The counters across one iteration.\<close>

lemma batch_face_counters:
  assumes "batch_face E src i fc (w, loc) = Inr (w', loc')"
  shows "(\<exists>b. currentBatch w' = Some b \<and> count b = vertexCount w' - start b) \<and>
    totalFacesRendered loc' = totalFacesRendered loc + 1"
  using assms
  by (auto simp: batch_face_def split_beta Let_def split: if_splits option.splits)

lemma batch_face_vertexCount:
  assumes "keeps_vertexCount E" and "batch_face E src i fc (w, loc) = Inr (w', loc')"
  shows "vertexCount w' = vertexCount w + 3 - flushed (calls_since w w')"
proof -
  from assms(1) have k:
    "\<And>fc a m r w. vertexCount (snd (face_update E fc a m r w)) = vertexCount w"
    "\<And>n w. vertexCount (snd (shouldFlush E n w)) = vertexCount w"
    "\<And>src w. vertexCount (snd (setGameObject E src w)) = vertexCount w"
    "\<And>fc off u t w. vertexCount (snd (face_load E fc off u t w)) = vertexCount w"
    by (simp_all add: keeps_vertexCount_def)
  from batch_face_calls_exact [OF assms(2)]
  have c: "flushed (calls_since w w') =
      (let w1 = snd (invoke (Call_update i)
                    (face_update E fc (alpha loc) (calcMatrix loc) (roundPixels loc)) w);
           sf = fst (invoke (Call_shouldFlush 3) (shouldFlush E 3) w1);
           w2 = snd (invoke (Call_shouldFlush 3) (shouldFlush E 3) w1);
           w3 = invoke_flush (flush E) w2
       in if sf then vertexCount w2 - vertexCount w3 else 0)"
    by (auto simp: Let_def calls_since_def)
  from assms(2) show ?thesis
    unfolding c
    by (auto simp: batch_face_def split_beta Let_def invoke_fields invoke_flush_fields k
        split: if_splits option.splits)
qed

lemma batch_face_totalFrame:
  assumes "keeps_totalFrame E" and "batch_face E src i fc (w, loc) = Inr (w', loc')"
  shows "totalFrame w' = totalFrame w"
proof -
  from assms(1) have k:
    "\<And>fc a m r w. totalFrame (snd (face_update E fc a m r w)) = totalFrame w"
    "\<And>n w. totalFrame (snd (shouldFlush E n w)) = totalFrame w"
    "\<And>w. totalFrame (flush E w) = totalFrame w"
    "\<And>src w. totalFrame (snd (setGameObject E src w)) = totalFrame w"
    "\<And>fc off u t w. totalFrame (snd (face_load E fc off u t w)) = totalFrame w"
    by (simp_all add: keeps_totalFrame_def)
  from assms(2) show ?thesis
    by (auto simp: batch_face_def split_beta Let_def invoke_fields invoke_flush_fields k
        split: if_splits option.splits)
qed

lemma batch_face_returns:
  assumes "provides_batch E" and "currentBatch w \<noteq> None"
  shows "\<exists>w' loc'. batch_face E src i fc (w, loc) = Inr (w', loc')"
proof -
  from assms(1) have k:
    "\<And>src w. currentBatch (snd (setGameObject E src w)) \<noteq> None"
    "\<And>fc a m r w. currentBatch w \<noteq> None \<Longrightarrow>
        currentBatch (snd (face_update E fc a m r w)) \<noteq> None"
    "\<And>n w. currentBatch w \<noteq> None \<Longrightarrow> currentBatch (snd (shouldFlush E n w)) \<noteq> None"
    "\<And>fc off u t w. currentBatch w \<noteq> None \<Longrightarrow>
        currentBatch (snd (face_load E fc off u t w)) \<noteq> None"
    by (simp_all add: provides_batch_def)
  obtain face w1 where
    u: "invoke (Call_update i)
          (face_update E fc (alpha loc) (calcMatrix loc) (roundPixels loc)) w = (face, w1)"
    by (cases "invoke (Call_update i)
          (face_update E fc (alpha loc) (calcMatrix loc) (roundPixels loc)) w")
  have b1: "currentBatch w1 \<noteq> None"
    using invoke_fields(5) [of "Call_update i"
        "face_update E fc (alpha loc) (calcMatrix loc) (roundPixels loc)" w] k(2) [OF assms(2)]
    by (simp add: u del: not_None_eq)
  obtain sf w2 where
    s: "invoke (Call_shouldFlush 3) (shouldFlush E 3) w1 = (sf, w2)"
    by (cases "invoke (Call_shouldFlush 3) (shouldFlush E 3) w1")
  have b2: "currentBatch w2 \<noteq> None"
    using invoke_fields(5) [of "Call_shouldFlush 3" "shouldFlush E 3" w1] k(3) [OF b1]
    by (simp add: s del: not_None_eq)
  obtain w5 loc1 where
    m: "(if sf
         then (let w3 = invoke_flush (flush E) w2 in
               case (if currentBatch w3 = None
                     then invoke Call_setGameObject (setGameObject E src) w3
                     else (textureUnit loc, w3)) of
                 (tu, w4) \<Rightarrow> (w4, loc\<lparr>textureUnit := tu, vertexOffset := 0\<rparr>))
         else (w2, loc)) = (w5, loc1)"
    by (cases "(if sf
         then (let w3 = invoke_flush (flush E) w2 in
               case (if currentBatch w3 = None
                     then invoke Call_setGameObject (setGameObject E src) w3
                     else (textureUnit loc, w3)) of
                 (tu, w4) \<Rightarrow> (w4, loc\<lparr>textureUnit := tu, vertexOffset := 0\<rparr>))
         else (w2, loc))")
  have b5: "currentBatch w5 \<noteq> None"
  proof (cases sf)
    case False
    with m b2 show ?thesis by simp
  next
    case True
    show ?thesis
    proof (cases "currentBatch (invoke_flush (flush E) w2) = None")
      case True
      with \<open>sf\<close> m have "w5 = snd (invoke Call_setGameObject (setGameObject E src)
          (invoke_flush (flush E) w2))"
        by (auto simp: Let_def split_beta)
      then show ?thesis
        by (simp add: invoke_fields k(1) del: not_None_eq)
    next
      case False
      with \<open>sf\<close> m have "w5 = invoke_flush (flush E) w2"
        by (auto simp: Let_def)
      with False show ?thesis by simp
    qed
  qed
  obtain vo w6 where
    l: "invoke (Call_load i (vertexOffset loc1) (textureUnit loc1) (tintEffect loc1))
          (face_load E face (vertexOffset loc1) (textureUnit loc1) (tintEffect loc1)) w5
        = (vo, w6)"
    by (cases "invoke (Call_load i (vertexOffset loc1) (textureUnit loc1) (tintEffect loc1))
          (face_load E face (vertexOffset loc1) (textureUnit loc1) (tintEffect loc1)) w5")
  have "currentBatch w6 \<noteq> None"
    using invoke_fields(5) [of "Call_load i (vertexOffset loc1) (textureUnit loc1) (tintEffect loc1)"
        "face_load E face (vertexOffset loc1) (textureUnit loc1) (tintEffect loc1)" w5]
      k(4) [OF b5]
    by (simp add: l del: not_None_eq)
  then obtain b where b6: "currentBatch w6 = Some b" by auto
  show ?thesis
    unfolding batch_face_def by (simp add: u s m l b6 Let_def)
qed


subsection \<open>The loop\<close>

lemma batch_faces_returns:
  assumes "provides_batch E" and "currentBatch w \<noteq> None"
  shows "\<exists>w' loc'. batch_faces E src i fcs (w, loc) = Inr (w', loc')"
  using assms(2)
proof (induction fcs arbitrary: i w loc)
  case Nil
  show ?case by simp
next
  case (Cons fc fcs)
  from batch_face_returns [OF assms(1) Cons.prems] obtain w1 loc1 where
    one: "batch_face E src i fc (w, loc) = Inr (w1, loc1)" by blast
  from batch_face_counters [OF one] have "currentBatch w1 \<noteq> None" by auto
  from Cons.IH [OF this] obtain w' loc' where
    "batch_faces E src (Suc i) fcs (w1, loc1) = Inr (w', loc')" by blast
  with one show ?case by simp
qed

lemma batch_faces_counters:
  assumes "keeps_vertexCount E" and "batch_faces E src i fcs (w, loc) = Inr (w', loc')"
  shows "vertexCount w' = vertexCount w + 3 * int (length fcs) - flushed (calls_since w w') \<and>
    totalFacesRendered loc' = totalFacesRendered loc + int (length fcs)"
  using assms(2)
proof (induction fcs arbitrary: i w loc)
  case Nil
  then show ?case by (simp add: calls_since_def)
next
  case (Cons fc fcs)
  from Cons.prems obtain w1 loc1 where
    one: "batch_face E src i fc (w, loc) = Inr (w1, loc1)" and
    more: "batch_faces E src (Suc i) fcs (w1, loc1) = Inr (w', loc')"
    by (auto split: sum.splits)
  from batch_face_calls [OF one] obtain seg where seg: "calls w1 = calls w @ seg" by blast
  from batch_faces_calls [OF more] obtain cs where cs: "calls w' = calls w1 @ cs" by blast
  from seg have s1: "calls_since w w1 = seg" by (rule calls_since_append)
  from cs have s2: "calls_since w1 w' = cs" by (rule calls_since_append)
  from seg cs have "calls w' = calls w @ (seg @ cs)" by simp
  then have s3: "calls_since w w' = seg @ cs" by (rule calls_since_append)
  from batch_face_vertexCount [OF assms(1) one] batch_face_counters [OF one] Cons.IH [OF more]
  show ?case
    by (simp add: s1 s2 s3 flushed_append)
qed

lemma batch_faces_totalFrame:
  assumes "keeps_totalFrame E" and "batch_faces E src i fcs (w, loc) = Inr (w', loc')"
  shows "totalFrame w' = totalFrame w"
  using assms(2)
proof (induction fcs arbitrary: i w loc)
  case Nil
  then show ?case by simp
next
  case (Cons fc fcs)
  from Cons.prems obtain w1 loc1 where
    one: "batch_face E src i fc (w, loc) = Inr (w1, loc1)" and
    more: "batch_faces E src (Suc i) fcs (w1, loc1) = Inr (w', loc')"
    by (auto split: sum.splits)
  from batch_face_totalFrame [OF assms(1) one] Cons.IH [OF more] show ?case by simp
qed

subsection \<open>The whole call\<close>

text \<open>The renderer, with the states before and after the loop named.\<close>

lemma renderer_unfold:
  assumes "faces src \<noteq> []"
  shows "NineSliceWebGLRenderer E src cam parentMatrix w =
     (let w1 = invoke_unit Call_addToRenderList (addToRenderList E src) w;
          w2 = invoke_unit Call_pipelines_set (pipelines_set E src) w1;
          w3 = snd (invoke Call_GetCalcMatrix (GetCalcMatrix E src cam parentMatrix) w2);
          w4 = snd (invoke Call_setGameObject (setGameObject E src) w3);
          w5 = invoke_unit Call_preBatch (preBatch E src) w4;
          loc = \<lparr>calcMatrix = fst (invoke Call_GetCalcMatrix (GetCalcMatrix E src cam parentMatrix) w2),
                 tintEffect = tintFill src,
                 roundPixels = camera_roundPixels cam,
                 alpha = times_number E (camera_alpha cam) (src_alpha src),
                 textureUnit = fst (invoke Call_setGameObject (setGameObject E src) w3),
                 vertexOffset = vertexCount w4 * vertexComponentCount w4 - 1,
                 totalFacesRendered = 0\<rparr>
      in case batch_faces E src 0 (faces src) (w5, loc) of
           Inl e \<Rightarrow> Inl e
         | Inr (w6, loc1) \<Rightarrow>
             Inr (RValue JUndefined,
                  invoke_unit Call_postBatch (postBatch E src)
                    (w6\<lparr>totalFrame := totalFrame w6 + totalFacesRendered loc1\<rparr>)))"
  using assms by (simp add: NineSliceWebGLRenderer_def Let_def split_beta split: sum.splits)

text \<open>What the renderer has done when the loop starts.\<close>

lemma renderer_prelude:
  assumes "faces src \<noteq> []"
    and "NineSliceWebGLRenderer E src cam parentMatrix w = Inr (r, w')"
  obtains w5 loc w6 loc1 where
    "calls w5 = calls w @ [Call_addToRenderList, Call_pipelines_set, Call_GetCalcMatrix,
        Call_setGameObject, Call_preBatch]"
    "w5 = invoke_unit Call_preBatch (preBatch E src)
       (snd (invoke Call_setGameObject (setGameObject E src)
         (snd (invoke Call_GetCalcMatrix (GetCalcMatrix E src cam parentMatrix)
           (invoke_unit Call_pipelines_set (pipelines_set E src)
             (invoke_unit Call_addToRenderList (addToRenderList E src) w))))))"
    "totalFacesRendered loc = 0"
    "batch_faces E src 0 (faces src) (w5, loc) = Inr (w6, loc1)"
    "w' = invoke_unit Call_postBatch (postBatch E src)
        (w6\<lparr>totalFrame := totalFrame w6 + totalFacesRendered loc1\<rparr>)"
    "r = RValue JUndefined"
proof -
  let ?w5 = "invoke_unit Call_preBatch (preBatch E src)
       (snd (invoke Call_setGameObject (setGameObject E src)
         (snd (invoke Call_GetCalcMatrix (GetCalcMatrix E src cam parentMatrix)
           (invoke_unit Call_pipelines_set (pipelines_set E src)
             (invoke_unit Call_addToRenderList (addToRenderList E src) w))))))"
  have c: "calls ?w5 = calls w @ [Call_addToRenderList, Call_pipelines_set, Call_GetCalcMatrix,
        Call_setGameObject, Call_preBatch]"
    by (simp add: invoke_fields invoke_unit_fields)
  from assms(2) show ?thesis
    unfolding renderer_unfold [OF assms(1)] Let_def
    by (auto split: sum.splits intro!: that [OF c refl])
qed


lemma renderer_returns:
  assumes "provides_batch E"
  shows "\<exists>w'. NineSliceWebGLRenderer E src cam parentMatrix w = Inr (RValue JUndefined, w')"
proof (cases "faces src = []")
  case True
  then show ?thesis by (simp add: NineSliceWebGLRenderer_def)
next
  case False
  from assms have k:
    "\<And>src w. currentBatch (snd (setGameObject E src w)) \<noteq> None"
    "\<And>src w. currentBatch w \<noteq> None \<Longrightarrow> currentBatch (preBatch E src w) \<noteq> None"
    by (simp_all add: provides_batch_def)
  let ?w4 = "snd (invoke Call_setGameObject (setGameObject E src)
         (snd (invoke Call_GetCalcMatrix (GetCalcMatrix E src cam parentMatrix)
           (invoke_unit Call_pipelines_set (pipelines_set E src)
             (invoke_unit Call_addToRenderList (addToRenderList E src) w)))))"
  let ?loc = "\<lparr>calcMatrix = fst (invoke Call_GetCalcMatrix (GetCalcMatrix E src cam parentMatrix)
                    (invoke_unit Call_pipelines_set (pipelines_set E src)
                      (invoke_unit Call_addToRenderList (addToRenderList E src) w))),
                 tintEffect = tintFill src,
                 roundPixels = camera_roundPixels cam,
                 alpha = times_number E (camera_alpha cam) (src_alpha src),
                 textureUnit = fst (invoke Call_setGameObject (setGameObject E src)
                    (snd (invoke Call_GetCalcMatrix (GetCalcMatrix E src cam parentMatrix)
                      (invoke_unit Call_pipelines_set (pipelines_set E src)
                        (invoke_unit Call_addToRenderList (addToRenderList E src) w))))),
                 vertexOffset = vertexCount ?w4 * vertexComponentCount ?w4 - 1,
                 totalFacesRendered = 0\<rparr>"
  have "currentBatch ?w4 \<noteq> None"
    by (simp add: invoke_fields k(1) del: not_None_eq)
  then have "currentBatch (invoke_unit Call_preBatch (preBatch E src) ?w4) \<noteq> None"
    by (simp add: invoke_unit_fields k(2) del: not_None_eq)
  from batch_faces_returns [OF assms this, of src 0 "faces src" ?loc] obtain w6 loc1 where
    "batch_faces E src 0 (faces src)
       (invoke_unit Call_preBatch (preBatch E src) ?w4, ?loc) = Inr (w6, loc1)"
    by blast
  then show ?thesis
    unfolding renderer_unfold [OF False] Let_def by simp
qed

lemma small_engine_contract:
  "keeps_vertexCount (small_engine c)"
  "keeps_totalFrame (small_engine c)"
  "provides_batch (small_engine c)"
  by (simp_all add: keeps_vertexCount_def keeps_totalFrame_def provides_batch_def
      small_engine_def)

lemma small_run:
  "NineSliceWebGLRenderer (small_engine 6) (small_src 3) small_camera () small_world =
     Inr (RValue JUndefined,
       \<lparr>vertexCount = 3, vertexComponentCount = 7,
        currentBatch = Some \<lparr>start = 0, count = 3\<rparr>, totalFrame = 3,
        calls =
          [Call_addToRenderList, Call_pipelines_set, Call_GetCalcMatrix,
           Call_setGameObject, Call_preBatch,
           Call_update 0, Call_shouldFlush 3, Call_load 0 (- 1) 0 False,
           Call_update 1, Call_shouldFlush 3, Call_load 1 20 0 False,
           Call_update 2, Call_shouldFlush 3, Call_flush 6 0, Call_setGameObject,
           Call_load 2 0 0 False,
           Call_postBatch],
        rest = [- 1, 20, 0]\<rparr>)"
  by code_simp

subsection \<open>No faces\<close>

text \<open>
  C2. When the faces list of the game object is empty, the renderer returns at once:
  whatever the engine is, the state is the one it started from. No call is recorded
  (not \<open>pipelines.set\<close>, \<open>setGameObject\<close>, \<open>preBatch\<close>, \<open>shouldFlush\<close>, \<open>flush\<close>,
  \<open>postBatch\<close> or \<open>camera.addToRenderList\<close>), and the pipeline counters, the batch,
  \<open>src.totalFrame\<close> and the rest of the engine are untouched.
\<close>

theorem no_faces_no_calls:
  assumes "faces src = []"
  shows "NineSliceWebGLRenderer E src cam parentMatrix w = Inr (RValue JUndefined, w)"
  using assms by (simp add: NineSliceWebGLRenderer_def)

theorem no_faces_no_calls_witness:
  "faces (small_src 0) = [] \<and>
   NineSliceWebGLRenderer (small_engine 6) (small_src 0) small_camera () small_world =
     Inr (RValue JUndefined, small_world)"
proof -
  have h: "faces (small_src 0) = []" by (simp add: small_src_def)
  from no_faces_no_calls [OF h, of "small_engine 6" small_camera "()" small_world] h
  show ?thesis by simp
qed

subsection \<open>The batch counters\<close>

text \<open>
  C6. For a call with \<open>n > 0\<close> faces, on an engine in which only a flush changes
  \<open>pipeline.vertexCount\<close>, nothing writes \<open>src.totalFrame\<close>, and \<open>setGameObject\<close>
  provides the current batch that only a flush clears: the call returns;
  \<open>pipeline.vertexCount\<close> ends at its initial value plus \<open>3 * n\<close>, less what the
  flushes in between took out; and \<open>src.totalFrame\<close> ends \<open>n\<close> higher. In every
  iteration that starts with a current batch, \<open>vertexCount\<close> grows by exactly 3 (less
  what a flush of that iteration took out), afterwards \<open>currentBatch.count\<close> equals
  \<open>vertexCount - currentBatch.start\<close>, and one more face is counted as rendered.
\<close>

theorem batch_counters:
  assumes "keeps_vertexCount E" and "keeps_totalFrame E" and "provides_batch E"
    and "faces src \<noteq> []"
  shows "(\<exists>w'. NineSliceWebGLRenderer E src cam parentMatrix w = Inr (RValue JUndefined, w') \<and>
       vertexCount w' =
         vertexCount w + 3 * int (length (faces src)) - flushed (calls_since w w') \<and>
       totalFrame w' = totalFrame w + int (length (faces src))) \<and>
    (currentBatch w0 \<noteq> None \<longrightarrow>
       (\<exists>w1 loc1. batch_face E src i fc (w0, loc) = Inr (w1, loc1) \<and>
          vertexCount w1 = vertexCount w0 + 3 - flushed (calls_since w0 w1) \<and>
          (\<exists>b. currentBatch w1 = Some b \<and> count b = vertexCount w1 - start b) \<and>
          totalFacesRendered loc1 = totalFacesRendered loc + 1))"
proof (intro conjI impI)
  from renderer_returns [OF assms(3)] obtain w' where
    res: "NineSliceWebGLRenderer E src cam parentMatrix w = Inr (RValue JUndefined, w')"
    by blast
  from assms(4) res obtain w5 loc w6 loc1 where
    c5: "calls w5 = calls w @ [Call_addToRenderList, Call_pipelines_set, Call_GetCalcMatrix,
        Call_setGameObject, Call_preBatch]" and
    w5: "w5 = invoke_unit Call_preBatch (preBatch E src)
       (snd (invoke Call_setGameObject (setGameObject E src)
         (snd (invoke Call_GetCalcMatrix (GetCalcMatrix E src cam parentMatrix)
           (invoke_unit Call_pipelines_set (pipelines_set E src)
             (invoke_unit Call_addToRenderList (addToRenderList E src) w))))))" and
    t0: "totalFacesRendered loc = 0" and
    loop: "batch_faces E src 0 (faces src) (w5, loc) = Inr (w6, loc1)" and
    w': "w' = invoke_unit Call_postBatch (postBatch E src)
        (w6\<lparr>totalFrame := totalFrame w6 + totalFacesRendered loc1\<rparr>)"
    by (rule renderer_prelude)
  from assms(1) have kv:
    "\<And>src w. vertexCount (addToRenderList E src w) = vertexCount w"
    "\<And>src w. vertexCount (pipelines_set E src w) = vertexCount w"
    "\<And>src cam pm w. vertexCount (snd (GetCalcMatrix E src cam pm w)) = vertexCount w"
    "\<And>src w. vertexCount (snd (setGameObject E src w)) = vertexCount w"
    "\<And>src w. vertexCount (preBatch E src w) = vertexCount w"
    "\<And>src w. vertexCount (postBatch E src w) = vertexCount w"
    by (simp_all add: keeps_vertexCount_def)
  from assms(2) have kt:
    "\<And>src w. totalFrame (addToRenderList E src w) = totalFrame w"
    "\<And>src w. totalFrame (pipelines_set E src w) = totalFrame w"
    "\<And>src cam pm w. totalFrame (snd (GetCalcMatrix E src cam pm w)) = totalFrame w"
    "\<And>src w. totalFrame (snd (setGameObject E src w)) = totalFrame w"
    "\<And>src w. totalFrame (preBatch E src w) = totalFrame w"
    "\<And>src w. totalFrame (postBatch E src w) = totalFrame w"
    by (simp_all add: keeps_totalFrame_def)
  have v5: "vertexCount w5 = vertexCount w"
    unfolding w5 by (simp add: invoke_fields invoke_unit_fields kv)
  have f5: "totalFrame w5 = totalFrame w"
    unfolding w5 by (simp add: invoke_fields invoke_unit_fields kt)
  from batch_faces_calls [OF loop] obtain cs where cs: "calls w6 = calls w5 @ cs" by blast
  then have s56: "calls_since w5 w6 = cs" by (rule calls_since_append)
  from cs c5 have "calls w' = calls w @
      ([Call_addToRenderList, Call_pipelines_set, Call_GetCalcMatrix,
        Call_setGameObject, Call_preBatch] @ cs @ [Call_postBatch])"
    unfolding w' by (simp add: invoke_unit_fields)
  then have "calls_since w w' =
      [Call_addToRenderList, Call_pipelines_set, Call_GetCalcMatrix,
        Call_setGameObject, Call_preBatch] @ cs @ [Call_postBatch]"
    by (rule calls_since_append)
  then have fl: "flushed (calls_since w w') = flushed cs"
    by (simp add: flushed_append)
  from batch_faces_counters [OF assms(1) loop]
  have v6: "vertexCount w6 = vertexCount w5 + 3 * int (length (faces src)) - flushed cs"
    and t6: "totalFacesRendered loc1 = int (length (faces src))"
    by (simp_all add: s56 t0)
  from batch_faces_totalFrame [OF assms(2) loop] have f6: "totalFrame w6 = totalFrame w5" .
  have vw: "vertexCount w' = vertexCount w6"
    by (simp add: w' invoke_unit_fields kv)
  have tw: "totalFrame w' = totalFrame w6 + totalFacesRendered loc1"
    by (simp add: w' invoke_unit_fields kt)
  have "vertexCount w' = vertexCount w + 3 * int (length (faces src)) - flushed (calls_since w w')"
    by (simp only: vw v6 v5 fl)
  moreover have "totalFrame w' = totalFrame w + int (length (faces src))"
    by (simp only: tw f6 f5 t6)
  ultimately show "\<exists>w'. NineSliceWebGLRenderer E src cam parentMatrix w = Inr (RValue JUndefined, w') \<and>
       vertexCount w' =
         vertexCount w + 3 * int (length (faces src)) - flushed (calls_since w w') \<and>
       totalFrame w' = totalFrame w + int (length (faces src))"
    using res by blast
next
  assume "currentBatch w0 \<noteq> None"
  from batch_face_returns [OF assms(3) this] obtain w1 loc1 where
    one: "batch_face E src i fc (w0, loc) = Inr (w1, loc1)" by blast
  from batch_face_vertexCount [OF assms(1) one] batch_face_counters [OF one] one
  show "\<exists>w1 loc1. batch_face E src i fc (w0, loc) = Inr (w1, loc1) \<and>
          vertexCount w1 = vertexCount w0 + 3 - flushed (calls_since w0 w1) \<and>
          (\<exists>b. currentBatch w1 = Some b \<and> count b = vertexCount w1 - start b) \<and>
          totalFacesRendered loc1 = totalFacesRendered loc + 1"
    by blast
qed

theorem batch_counters_witness:
  "keeps_vertexCount (small_engine 6) \<and> keeps_totalFrame (small_engine 6) \<and>
   provides_batch (small_engine 6) \<and> faces (small_src 3) \<noteq> [] \<and>
   (\<exists>w'. NineSliceWebGLRenderer (small_engine 6) (small_src 3) small_camera () small_world =
            Inr (RValue JUndefined, w') \<and>
          vertexCount w' = 0 + 3 * 3 - 6 \<and> flushed (calls_since small_world w') = 6 \<and>
          totalFrame w' = 0 + 3)"
proof -
  note h = small_engine_contract [of 6]
  have f: "faces (small_src 3) \<noteq> []" by (simp add: small_src_def)
  have n: "int (length (faces (small_src 3))) = 3" by (simp add: small_src_def)
  have z: "vertexCount small_world = 0" "totalFrame small_world = 0" "calls small_world = []"
    by (simp_all add: small_world_def)
  from batch_counters [OF h f, THEN conjunct1, of small_camera "()" small_world]
  obtain w' where
    r: "NineSliceWebGLRenderer (small_engine 6) (small_src 3) small_camera () small_world =
            Inr (RValue JUndefined, w')" and
    v: "vertexCount w' = vertexCount small_world + 3 * int (length (faces (small_src 3))) -
          flushed (calls_since small_world w')" and
    t: "totalFrame w' = totalFrame small_world + int (length (faces (small_src 3)))"
    by blast
  from r have "flushed (calls_since small_world w') = 6"
    unfolding small_run by (auto simp: calls_since_def z)
  with r v t n z h f show ?thesis by simp
qed

subsection \<open>Flushing\<close>

text \<open>
  C7. The renderer leaves overflow control to the pipeline. In every iteration that
  completes, the calls are: the update of the face, \<open>pipeline.shouldFlush(3)\<close>, then,
  only if the answer was true, \<open>pipeline.flush()\<close> followed by
  \<open>pipeline.setGameObject(src)\<close> exactly when the flush left no current batch, and last
  the load of the face, at offset 0 after a flush and at the running offset otherwise,
  with the texture unit of the new binding if there was one. The calls of a whole
  render are the five calls of the set-up, one such run per face in order, and
  \<open>postBatch\<close>. A face is written by its one load, which comes after the flush of
  its iteration: no flush falls between the vertices of a face.
\<close>

theorem flush_precedes_load:
  shows "(batch_face E src i fc (w0, loc) = Inr (w1, loc1) \<longrightarrow>
      (let wa = snd (invoke (Call_update i)
                    (face_update E fc (alpha loc) (calcMatrix loc) (roundPixels loc)) w0);
           sf = fst (invoke (Call_shouldFlush 3) (shouldFlush E 3) wa);
           wb = snd (invoke (Call_shouldFlush 3) (shouldFlush E 3) wa);
           wc = invoke_flush (flush E) wb
       in calls_since w0 w1 =
            [Call_update i, Call_shouldFlush 3] @
            (if sf
             then Call_flush (vertexCount wb) (vertexCount wc) #
                    (if currentBatch wc = None then [Call_setGameObject] else [])
             else []) @
            [Call_load i (if sf then 0 else vertexOffset loc) (textureUnit loc1)
               (tintEffect loc)] \<and>
          textureUnit loc1 =
            (if sf \<and> currentBatch wc = None
             then fst (invoke Call_setGameObject (setGameObject E src) wc)
             else textureUnit loc))) \<and>
    (faces src \<noteq> [] \<and> NineSliceWebGLRenderer E src cam parentMatrix w = Inr (r, w') \<longrightarrow>
      (\<exists>cs. calls_since w w' =
          [Call_addToRenderList, Call_pipelines_set, Call_GetCalcMatrix,
           Call_setGameObject, Call_preBatch] @ cs @ [Call_postBatch] \<and>
        loop_calls 0 (length (faces src)) cs))"
proof (intro conjI impI)
  assume one: "batch_face E src i fc (w0, loc) = Inr (w1, loc1)"
  from batch_face_calls_exact [OF one] show
    "let wa = snd (invoke (Call_update i)
                    (face_update E fc (alpha loc) (calcMatrix loc) (roundPixels loc)) w0);
         sf = fst (invoke (Call_shouldFlush 3) (shouldFlush E 3) wa);
         wb = snd (invoke (Call_shouldFlush 3) (shouldFlush E 3) wa);
         wc = invoke_flush (flush E) wb
     in calls_since w0 w1 =
          [Call_update i, Call_shouldFlush 3] @
          (if sf
           then Call_flush (vertexCount wb) (vertexCount wc) #
                  (if currentBatch wc = None then [Call_setGameObject] else [])
           else []) @
          [Call_load i (if sf then 0 else vertexOffset loc) (textureUnit loc1)
             (tintEffect loc)] \<and>
        textureUnit loc1 =
          (if sf \<and> currentBatch wc = None
           then fst (invoke Call_setGameObject (setGameObject E src) wc)
           else textureUnit loc)"
    by (simp add: Let_def calls_since_def)
next
  assume a: "faces src \<noteq> [] \<and> NineSliceWebGLRenderer E src cam parentMatrix w = Inr (r, w')"
  then obtain w5 loc w6 loc1 where
    c5: "calls w5 = calls w @ [Call_addToRenderList, Call_pipelines_set, Call_GetCalcMatrix,
        Call_setGameObject, Call_preBatch]" and
    loop: "batch_faces E src 0 (faces src) (w5, loc) = Inr (w6, loc1)" and
    w': "w' = invoke_unit Call_postBatch (postBatch E src)
        (w6\<lparr>totalFrame := totalFrame w6 + totalFacesRendered loc1\<rparr>)"
    by (auto elim: renderer_prelude)
  from batch_faces_calls [OF loop] obtain cs where
    cs: "calls w6 = calls w5 @ cs" "loop_calls 0 (length (faces src)) cs" by blast
  from cs(1) c5 have "calls w' = calls w @
      ([Call_addToRenderList, Call_pipelines_set, Call_GetCalcMatrix,
        Call_setGameObject, Call_preBatch] @ cs @ [Call_postBatch])"
    unfolding w' by (simp add: invoke_unit_fields)
  then have "calls_since w w' =
      [Call_addToRenderList, Call_pipelines_set, Call_GetCalcMatrix,
        Call_setGameObject, Call_preBatch] @ cs @ [Call_postBatch]"
    by (rule calls_since_append)
  with cs(2) show "\<exists>cs. calls_since w w' =
          [Call_addToRenderList, Call_pipelines_set, Call_GetCalcMatrix,
           Call_setGameObject, Call_preBatch] @ cs @ [Call_postBatch] \<and>
        loop_calls 0 (length (faces src)) cs"
    by blast
qed

theorem flush_precedes_load_witness:
  "faces (small_src 3) \<noteq> [] \<and>
   (\<exists>w' cs. NineSliceWebGLRenderer (small_engine 6) (small_src 3) small_camera () small_world =
            Inr (RValue JUndefined, w') \<and>
      calls_since small_world w' =
        [Call_addToRenderList, Call_pipelines_set, Call_GetCalcMatrix,
         Call_setGameObject, Call_preBatch] @ cs @ [Call_postBatch] \<and>
      loop_calls 0 3 cs \<and>
      cs = [Call_update 0, Call_shouldFlush 3, Call_load 0 (- 1) 0 False,
            Call_update 1, Call_shouldFlush 3, Call_load 1 20 0 False,
            Call_update 2, Call_shouldFlush 3, Call_flush 6 0, Call_setGameObject,
            Call_load 2 0 0 False])"
proof -
  have f: "faces (small_src 3) \<noteq> []" by (simp add: small_src_def)
  have n: "length (faces (small_src 3)) = 3" by (simp add: small_src_def)
  have z: "calls small_world = []" by (simp add: small_world_def)
  note inst = flush_precedes_load [THEN conjunct2, rule_format, OF conjI, OF f small_run]
  then obtain cs where
    c: "calls_since small_world
          \<lparr>vertexCount = 3, vertexComponentCount = 7,
           currentBatch = Some \<lparr>start = 0, count = 3\<rparr>, totalFrame = 3,
           calls =
             [Call_addToRenderList, Call_pipelines_set, Call_GetCalcMatrix,
              Call_setGameObject, Call_preBatch,
              Call_update 0, Call_shouldFlush 3, Call_load 0 (- 1) 0 False,
              Call_update 1, Call_shouldFlush 3, Call_load 1 20 0 False,
              Call_update 2, Call_shouldFlush 3, Call_flush 6 0, Call_setGameObject,
              Call_load 2 0 0 False,
              Call_postBatch],
           rest = [- 1, 20, 0]\<rparr> =
        [Call_addToRenderList, Call_pipelines_set, Call_GetCalcMatrix,
         Call_setGameObject, Call_preBatch] @ cs @ [Call_postBatch]" and
    l: "loop_calls 0 (length (faces (small_src 3))) cs"
    by blast
  from c have "cs = [Call_update 0, Call_shouldFlush 3, Call_load 0 (- 1) 0 False,
            Call_update 1, Call_shouldFlush 3, Call_load 1 20 0 False,
            Call_update 2, Call_shouldFlush 3, Call_flush 6 0, Call_setGameObject,
            Call_load 2 0 0 False]"
    by (simp add: calls_since_def z)
  with c l n f small_run show ?thesis by (intro conjI exI) simp_all
qed

subsection \<open>The value of the renderer\<close>

text \<open>
  C8. The renderer has no return value. Whenever it returns, the value is
  \<open>undefined\<close>; it returns so at once when there are no faces, and it returns on every
  engine whose \<open>setGameObject\<close> provides the current batch.
\<close>

theorem renderer_returns_undefined:
  shows "(\<forall>r w'. NineSliceWebGLRenderer E src cam parentMatrix w = Inr (r, w') \<longrightarrow>
            r = RValue JUndefined) \<and>
    (faces src = [] \<longrightarrow>
       NineSliceWebGLRenderer E src cam parentMatrix w = Inr (RValue JUndefined, w)) \<and>
    (provides_batch E \<longrightarrow>
       (\<exists>w'. NineSliceWebGLRenderer E src cam parentMatrix w = Inr (RValue JUndefined, w')))"
proof (intro conjI allI impI)
  fix r w'
  assume "NineSliceWebGLRenderer E src cam parentMatrix w = Inr (r, w')"
  then show "r = RValue JUndefined"
    by (auto simp: NineSliceWebGLRenderer_def Let_def split_beta split: if_splits sum.splits)
next
  assume "faces src = []"
  then show "NineSliceWebGLRenderer E src cam parentMatrix w = Inr (RValue JUndefined, w)"
    by (simp add: NineSliceWebGLRenderer_def)
next
  assume "provides_batch E"
  then show "\<exists>w'. NineSliceWebGLRenderer E src cam parentMatrix w = Inr (RValue JUndefined, w')"
    by (rule renderer_returns)
qed

theorem renderer_returns_undefined_witness:
  "provides_batch (small_engine 6) \<and>
   (\<exists>w'. NineSliceWebGLRenderer (small_engine 6) (small_src 3) small_camera () small_world =
      Inr (RValue JUndefined, w'))"
proof -
  have h: "provides_batch (small_engine 6)" by (rule small_engine_contract)
  from renderer_returns_undefined [of "small_engine 6" "small_src 3" small_camera "()" small_world] h
  show ?thesis by blast
qed

end
